theory Spec2Isabelle
  imports Complex_Main
begin

section \<open>Python values, exceptions and the operators the code applies\<close>

text \<open>
  The values that reach the code: what a JSON request body decodes to (\<open>None\<close>, booleans,
  numbers, strings, lists, objects) and what a parameter set stores. A Python \<open>float\<close> is
  modelled by an exact real (rounding and NaN are outside the model), an \<open>int\<close> by an
  integer. A \<open>dict\<close> is an association list in insertion order, looked up with
  \<open>map_of\<close>.
\<close>

datatype pyval =
    PNone
  | PBool bool
  | PInt int
  | PFloat real
  | PStr string
  | PList "pyval list"
  | PDict "(string \<times> pyval) list"

text \<open>An exception is its class name together with \<open>str(e)\<close>.\<close>

datatype py_exn = Exn (exn_class: string) (exn_str: string)

fun type_name :: "pyval \<Rightarrow> string" where
  "type_name PNone = ''NoneType''"
| "type_name (PBool b) = ''bool''"
| "type_name (PInt i) = ''int''"
| "type_name (PFloat r) = ''float''"
| "type_name (PStr s) = ''str''"
| "type_name (PList l) = ''list''"
| "type_name (PDict d) = ''dict''"

text \<open>Truthiness, as \<open>if x:\<close> and \<open>x and ...\<close> test it.\<close>

fun truthy :: "pyval \<Rightarrow> bool" where
  "truthy PNone = False"
| "truthy (PBool b) = b"
| "truthy (PInt i) = (i \<noteq> 0)"
| "truthy (PFloat r) = (r \<noteq> 0)"
| "truthy (PStr s) = (s \<noteq> [])"
| "truthy (PList l) = (l \<noteq> [])"
| "truthy (PDict d) = (d \<noteq> [])"

text \<open>\<open>x != 0\<close>: numbers and booleans compare by value, every other value differs from 0.\<close>

fun ne_zero :: "pyval \<Rightarrow> bool" where
  "ne_zero (PBool b) = b"
| "ne_zero (PInt i) = (i \<noteq> 0)"
| "ne_zero (PFloat r) = (r \<noteq> 0)"
| "ne_zero v = True"

text \<open>The number a value stands for in arithmetic, when it is one.\<close>

fun num_of :: "pyval \<Rightarrow> real option" where
  "num_of (PBool b) = Some (if b then 1 else 0)"
| "num_of (PInt i) = Some (real_of_int i)"
| "num_of (PFloat r) = Some r"
| "num_of v = None"

fun is_float :: "pyval \<Rightarrow> bool" where
  "is_float (PFloat r) = True"
| "is_float v = False"

definition unsupported :: "string \<Rightarrow> string \<Rightarrow> string \<Rightarrow> py_exn" where
  "unsupported opr l r =
     Exn ''TypeError''
       (''unsupported operand type(s) for '' @ opr @ '': '' @ [CHR 0x27] @ l @ [CHR 0x27]
          @ '' and '' @ [CHR 0x27] @ r @ [CHR 0x27])"

definition seq_times_float :: py_exn where
  "seq_times_float =
     Exn ''TypeError''
       (''can'' @ [CHR 0x27] @ ''t multiply sequence by non-int of type ''
          @ [CHR 0x27] @ ''float'' @ [CHR 0x27])"

text \<open>
  An \<open>int\<close> (or \<open>bool\<close>) that meets a float in arithmetic is converted to a float first, and
  the conversion of a too large \<open>int\<close> raises: the largest float is \<open>2^1024 - 2^971\<close>, and
  an \<open>int\<close> of magnitude \<open>2^1024 - 2^970\<close> or more rounds beyond it. A \<open>PFloat\<close> stands for
  a finite float; the rounding of a result, and a float result beyond the largest float
  (Python's \<open>inf\<close>), are outside the model.
\<close>

definition float_limit :: real where
  "float_limit = 2 ^ 1024 - 2 ^ 970"

definition int_to_float :: "real \<Rightarrow> py_exn + real" where
  "int_to_float x =
     (if \<bar>x\<bar> < float_limit then Inr x
      else Inl (Exn ''OverflowError'' ''int too large to convert to float''))"

text \<open>The float operand \<open>a\<close> gives, \<open>x\<close> being the number it stands for.\<close>

definition as_float :: "pyval \<Rightarrow> real \<Rightarrow> py_exn + real" where
  "as_float a x = (if is_float a then Inr x else int_to_float x)"

text \<open>
  \<open>a / b\<close>: true division, a float whenever it returns. With a float operand both
  operands are converted, left first, and then the divisor is tested; two \<open>int\<close>s are
  divided exactly, the divisor tested first, and the quotient must fit a float.
\<close>

definition truediv :: "pyval \<Rightarrow> pyval \<Rightarrow> py_exn + pyval" where
  "truediv a b =
     (case (num_of a, num_of b) of
        (Some x, Some y) \<Rightarrow>
          if is_float a \<or> is_float b then
            (case as_float a x of
               Inl e \<Rightarrow> Inl e
             | Inr x' \<Rightarrow>
                 (case as_float b y of
                    Inl e \<Rightarrow> Inl e
                  | Inr y' \<Rightarrow>
                      if y' = 0 then
                        Inl (Exn ''ZeroDivisionError'' ''float division by zero'')
                      else Inr (PFloat (x' / y'))))
          else if y = 0 then Inl (Exn ''ZeroDivisionError'' ''division by zero'')
          else if float_limit \<le> \<bar>x / y\<bar> then
            Inl (Exn ''OverflowError'' ''integer division result too large for a float'')
          else Inr (PFloat (x / y))
      | _ \<Rightarrow> Inl (unsupported ''/'' (type_name a) (type_name b)))"

text \<open>\<open>a * f\<close> and \<open>a *= f\<close> for a float \<open>f\<close>; \<open>opr\<close> is the operator the message names.\<close>

definition times_float :: "string \<Rightarrow> pyval \<Rightarrow> real \<Rightarrow> py_exn + pyval" where
  "times_float opr a f =
     (case num_of a of
        Some x \<Rightarrow>
          (case as_float a x of
             Inl e \<Rightarrow> Inl e
           | Inr x' \<Rightarrow> Inr (PFloat (x' * f)))
      | None \<Rightarrow>
          (case a of
             PStr s \<Rightarrow> Inl seq_times_float
           | PList l \<Rightarrow> Inl seq_times_float
           | _ \<Rightarrow> Inl (unsupported opr (type_name a) ''float'')))"

text \<open>\<open>a + f\<close> for a float \<open>f\<close>.\<close>

definition plus_float :: "pyval \<Rightarrow> real \<Rightarrow> py_exn + pyval" where
  "plus_float a f =
     (case num_of a of
        Some x \<Rightarrow>
          (case as_float a x of
             Inl e \<Rightarrow> Inl e
           | Inr x' \<Rightarrow> Inr (PFloat (x' + f)))
      | None \<Rightarrow>
          (case a of
             PStr s \<Rightarrow>
               Inl (Exn ''TypeError''
                     (''can only concatenate str (not '' @ [CHR 0x22] @ ''float''
                        @ [CHR 0x22] @ '') to str''))
           | PList l \<Rightarrow>
               Inl (Exn ''TypeError''
                     (''can only concatenate list (not '' @ [CHR 0x22] @ ''float''
                        @ [CHR 0x22] @ '') to list''))
           | _ \<Rightarrow> Inl (unsupported ''+'' (type_name a) ''float'')))"


text \<open>
  An f-string that formats a number keeps the number: the digits Python prints for a float
  are not a function of the real it is modelled by. A plain string \<open>s\<close> is \<open>[Lit s]\<close>.
\<close>

datatype fpart = Lit string | Fmt pyval

type_synonym fstring = "fpart list"

text \<open>
  \<open>str.capitalize()\<close>: the first character upper case, the rest lower case. The model
  changes the letters of ASCII and leaves every other character, so it is
  \<open>str.capitalize\<close> on ASCII text only.
\<close>

definition upper_char :: "char \<Rightarrow> char" where
  "upper_char c =
     (let n = (of_char c :: nat) in if 97 \<le> n \<and> n \<le> 122 then char_of (n - 32) else c)"

definition lower_char :: "char \<Rightarrow> char" where
  "lower_char c =
     (let n = (of_char c :: nat) in if 65 \<le> n \<and> n \<le> 90 then char_of (n + 32) else c)"

fun capitalize :: "string \<Rightarrow> string" where
  "capitalize [] = []"
| "capitalize (c # cs) = upper_char c # map lower_char cs"

section \<open>The external collaborators\<close>

text \<open>
  A parameter set maps parameter names to values. A cycle (and a whole solution) answers
  \<open>obj[variable].entries.tolist()\<close> with the samples of the variable or raises.
\<close>

type_synonym params = "string \<rightharpoonup> pyval"

type_synonym cycle = "string \<Rightarrow> py_exn + real list"

record solution =
  entries :: cycle
  cycles :: "cycle list"

datatype opt = OStr string | OTuple "opt list"

datatype model = DFN "(string \<times> opt) list" | SPM

record solver =
  mode_of :: string
  dt_max :: "real option"
  extra_options_setup :: "(string \<times> int) list"

definition CasadiSolver :: "string \<Rightarrow> solver" where
  "CasadiSolver m = \<lparr>mode_of = m, dt_max = None, extra_options_setup = []\<rparr>"

record step =
  instruction :: fstring
  period :: "string option"

text \<open>The argument of \<open>pybamm.Experiment\<close>: the list of its cycles, each a list of steps.\<close>

type_synonym cycling = "step list list"

text \<open>
  The solver library: \<open>ParameterValues(name)\<close> and
  \<open>Simulation(model, parameter_values, experiment, solver).solve(**kwargs)\<close>. Both may
  raise. Building a model or a solver object with the literal arguments of the source is
  taken to succeed, and what \<open>print\<close> writes is not modelled.
\<close>

record pybamm =
  ParameterValues :: "string \<Rightarrow> py_exn + params"
  solve :: "model \<Rightarrow> params \<Rightarrow> cycling \<Rightarrow> solver \<Rightarrow> (string \<times> pyval) list
              \<Rightarrow> py_exn + solution"

text \<open>
  Modelled from the spec: \<open>ParameterValues.update\<close> and \<open>ParameterValues.get\<close> are the
  library's, not under src/. Following the spec's ParameterSet ("a mapping from parameter
  name to a numeric or string value", overrides overwrite, unknown keys are not validated
  here), \<open>update\<close> stores each pair in turn and \<open>get\<close> answers \<open>None\<close> for a missing key.
\<close>

definition update :: "params \<Rightarrow> (string \<times> pyval) list \<Rightarrow> params" where
  "update parameters kvs = fold (\<lambda>(k, v) m. m(k \<mapsto> v)) kvs parameters"

definition params_get :: "params \<Rightarrow> string \<Rightarrow> pyval" where
  "params_get parameters k = (case parameters k of None \<Rightarrow> PNone | Some v \<Rightarrow> v)"

text \<open>
  Modelled from the spec: \<open>numpy.linspace(start, stop, num)\<close> is the library's, not under
  src/: \<open>num\<close> values "linearly spaced" from \<open>start\<close> to \<open>stop\<close> inclusive. numpy returns
  no value for \<open>num = 0\<close>, \<open>[start]\<close> for \<open>num = 1\<close>, and otherwise
  \<open>start + i * ((stop - start) / (num - 1))\<close> with the last value set to \<open>stop\<close>.
\<close>

definition linspace :: "real \<Rightarrow> real \<Rightarrow> nat \<Rightarrow> real list" where
  "linspace start stop num =
     (if num = 0 then []
      else if num = 1 then [start]
      else map (\<lambda>i. start + real i * ((stop - start) / real (num - 1))) [0..<num - 1]
           @ [stop])"

section \<open>utils.py\<close>

text \<open>The table \<open>batteries\<close>: front-end battery titles and their parameter sets.\<close>

definition batteries :: "(string \<times> string) list" where
  "batteries =
     [(''NMC'', ''Mohtat2020''),
      (''NCA'', ''NCA_Kim2011''),
      (''LFP'', ''Prada2013''),
      (''LG M50'', ''OKane2022''),
      (''Silicon'', ''Chen2020_composite''),
      (''LFPBackup'', ''Ecker2015'')]"

text \<open>\<open>get_voltage_limits\<close>: falling off the end of the function returns \<open>None\<close>.\<close>

definition get_voltage_limits :: "string \<Rightarrow> (pyval \<times> pyval) option" where
  "get_voltage_limits battery_type =
     (if battery_type = ''LFP'' then Some (PFloat 2.5, PFloat 3.65)
      else if battery_type = ''NMC'' then Some (PInt 3, PFloat 4.2)
      else if battery_type = ''NCA'' then Some (PFloat 2.5, PFloat 4.3)
      else None)"

text \<open>\<open>remove_every_other_from_array\<close>: \<open>list[::2]\<close>.\<close>

fun remove_every_other_from_array :: "'a list \<Rightarrow> 'a list" where
  "remove_every_other_from_array [] = []"
| "remove_every_other_from_array [x] = [x]"
| "remove_every_other_from_array (x # y # rest) = x # remove_every_other_from_array rest"

text \<open>A graph entry: \<open>{"name": ..., "fname": ..., "values": [...]}\<close>, \<open>fname\<close> optional.\<close>

record series =
  name :: string
  fname :: "fstring option"
  vals :: "real list"

text \<open>
  The loop \<open>for cycle in solution.cycles: function += cycle[variable_name].entries.tolist()\<close>,
  from the list \<open>function\<close> built so far. The first cycle that raises ends it.
\<close>

fun flatten_cycles :: "cycle list \<Rightarrow> string \<Rightarrow> real list \<Rightarrow> py_exn + real list" where
  "flatten_cycles [] variable_name function = Inr function"
| "flatten_cycles (cycle # rest) variable_name function =
     (case cycle variable_name of
        Inl e \<Rightarrow> Inl e
      | Inr samples \<Rightarrow> flatten_cycles rest variable_name (function @ samples))"

definition plot_against_cycle ::
  "solution \<Rightarrow> real \<Rightarrow> string \<Rightarrow> string \<Rightarrow> py_exn + series list" where
  "plot_against_cycle sol number_of_cycles variable_name func_name =
     (case flatten_cycles (cycles sol) variable_name [] of
        Inl e \<Rightarrow> Inl e
      | Inr function \<Rightarrow>
          (let cycles_array = linspace 0 number_of_cycles (length function) in
           Inr [\<lparr>name = ''Cycle'', fname = None, vals = cycles_array\<rparr>,
                \<lparr>name = variable_name, fname = Some [Lit func_name], vals = function\<rparr>]))"

text \<open>
  \<open>plot_graphs_against_cycle\<close>: the loop over the keys of the dict \<open>variables\<close>, with the
  state it carries from one key to the next: \<open>y_axis_name\<close> and \<open>graphs\<close>.
\<close>

fun plot_graphs_loop ::
  "solution \<Rightarrow> real \<Rightarrow> (string \<times> string) list \<Rightarrow> string list \<Rightarrow> string option
     \<Rightarrow> series list \<Rightarrow> py_exn + series list" where
  "plot_graphs_loop sol number_of_cycles variables [] y_axis_name graphs = Inr graphs"
| "plot_graphs_loop sol number_of_cycles variables (variable_name # rest) y_axis_name graphs =
     (let y_axis_name' = (case y_axis_name of None \<Rightarrow> variable_name | Some y \<Rightarrow> y) in
      case flatten_cycles (cycles sol) variable_name [] of
        Inl e \<Rightarrow> Inl e
      | Inr function \<Rightarrow>
          (let cycles_array = linspace 0 number_of_cycles (length function) in
           case map_of variables variable_name of
             None \<Rightarrow>
               Inl (Exn ''KeyError'' ([CHR 0x27] @ variable_name @ [CHR 0x27]))
           | Some f \<Rightarrow>
               plot_graphs_loop sol number_of_cycles variables rest (Some y_axis_name')
                 (graphs
                  @ [\<lparr>name = ''Cycle'', fname = None, vals = cycles_array\<rparr>,
                     \<lparr>name = y_axis_name', fname = Some [Lit f], vals = function\<rparr>])))"

definition plot_graphs_against_cycle ::
  "solution \<Rightarrow> real \<Rightarrow> (string \<times> string) list \<Rightarrow> string option \<Rightarrow> py_exn + series list" where
  "plot_graphs_against_cycle sol number_of_cycles variables y_axis_name =
     plot_graphs_loop sol number_of_cycles variables (map fst variables) y_axis_name []"

text \<open>
  \<open>update_parameters\<close> mutates \<open>parameters\<close> in place; the model returns the updated set,
  or the exception that ended the call. Its four \<open>if\<close> statements, in order. (A quotient
  and a product that return are floats, whose number \<open>the (num_of ...)\<close> reads.)
\<close>

definition update_temperature :: "params \<Rightarrow> pyval \<Rightarrow> params" where
  "update_temperature parameters temperature =
     (if truthy temperature \<and> ne_zero temperature
      then update parameters [(''Ambient temperature [K]'', temperature)]
      else parameters)"

definition update_capacity :: "params \<Rightarrow> pyval \<Rightarrow> py_exn + params" where
  "update_capacity parameters capacity =
     (if truthy capacity \<and> ne_zero capacity then
        (let nominal_capacity = params_get parameters ''Nominal cell capacity [A.h]'';
             nominal_height = params_get parameters ''Electrode height [m]''
         in case truediv capacity nominal_capacity of
              Inl e \<Rightarrow> Inl e
            | Inr ratio \<Rightarrow>
                (case times_float ''*'' nominal_height (the (num_of ratio)) of
                   Inl e \<Rightarrow> Inl e
                 | Inr new_height \<Rightarrow>
                     Inr (update parameters [(''Electrode height [m]'', new_height)])))
      else Inr parameters)"

definition update_thickness :: "params \<Rightarrow> pyval \<Rightarrow> params" where
  "update_thickness parameters PosElectrodeThickness =
     (if truthy PosElectrodeThickness \<and> ne_zero PosElectrodeThickness
      then update parameters [(''Positive electrode thickness [m]'', PosElectrodeThickness)]
      else parameters)"

definition update_silicon :: "params \<Rightarrow> pyval \<Rightarrow> py_exn + params" where
  "update_silicon parameters silicon_percent =
     (if truthy silicon_percent then
        (case times_float ''*='' silicon_percent 0.5 of
           Inl e \<Rightarrow> Inl e
         | Inr silicon_percent' \<Rightarrow>
             Inr (update parameters
                   [(''Primary: Negative electrode active material volume fraction'',
                       PFloat (1 - the (num_of silicon_percent'))),
                    (''Secondary: Negative electrode active material volume fraction'',
                       silicon_percent')]))
      else Inr parameters)"

definition update_parameters ::
  "params \<Rightarrow> pyval \<Rightarrow> pyval \<Rightarrow> pyval \<Rightarrow> pyval \<Rightarrow> py_exn + params" where
  "update_parameters parameters temperature capacity PosElectrodeThickness silicon_percent =
     (case update_capacity (update_temperature parameters temperature) capacity of
        Inl e \<Rightarrow> Inl e
      | Inr parameters' \<Rightarrow>
          update_silicon (update_thickness parameters' PosElectrodeThickness) silicon_percent)"

text \<open>
  \<open>run_charging_experiments\<close>. A graph group is the list
  \<open>[{"title": ...}, {"graphs": [...]}]\<close>.
\<close>

datatype item = Title string | Graphs "series list"

text \<open>\<open>minV, maxV = get_voltage_limits(battery_type)\<close>: unpacking \<open>None\<close> raises.\<close>

definition unpack_limits :: "(pyval \<times> pyval) option \<Rightarrow> py_exn + pyval \<times> pyval" where
  "unpack_limits limits =
     (case limits of
        None \<Rightarrow> Inl (Exn ''TypeError'' ''cannot unpack non-iterable NoneType object'')
      | Some (minV, maxV) \<Rightarrow> Inr (minV, maxV))"

text \<open>
  The first half of the loop body: the experiment, the initial state of charge and the
  y axis label for one C rate.
\<close>

definition rate_experiment ::
  "string \<Rightarrow> pyval \<Rightarrow> pyval \<Rightarrow> pyval \<Rightarrow> py_exn + cycling \<times> pyval \<times> string" where
  "rate_experiment mode minV maxV c_rate =
     (if mode = ''Charge'' then
        (case plus_float c_rate 0.01 of
           Inl e \<Rightarrow> Inl e
         | Inr rate \<Rightarrow>
             Inr ([[\<lparr>instruction =
                        [Lit ''Charge at '', Fmt rate, Lit ''C for 100 hours or until '',
                         Fmt maxV, Lit '' V''],
                      period = None\<rparr>]],
                  PInt 0, ''Throughput capacity [A.h]''))
      else
        (case plus_float c_rate 0.01 of
           Inl e \<Rightarrow> Inl e
         | Inr rate \<Rightarrow>
             Inr ([[\<lparr>instruction =
                        [Lit ''Discharge at '', Fmt rate, Lit ''C for 100 hours or until '',
                         Fmt minV, Lit '' V''],
                      period = None\<rparr>]],
                  PInt 1, ''Discharge capacity [A.h]'')))"

fun rate_loop ::
  "pybamm \<Rightarrow> string \<Rightarrow> params \<Rightarrow> pyval \<Rightarrow> pyval \<Rightarrow> pyval list \<Rightarrow> series list
     \<Rightarrow> py_exn + series list" where
  "rate_loop lib mode parameters minV maxV [] graphs = Inr graphs"
| "rate_loop lib mode parameters minV maxV (c_rate # rest) graphs =
     (case rate_experiment mode minV maxV c_rate of
        Inl e \<Rightarrow> Inl e
      | Inr (experiment, initial_soc, y_axis_label) \<Rightarrow>
          (case solve lib SPM parameters experiment (CasadiSolver ''fast'')
                  [(''initial_soc'', initial_soc)] of
             Inl e \<Rightarrow> Inl e
           | Inr sol \<Rightarrow>
               (case entries sol y_axis_label of
                  Inl e \<Rightarrow> Inl e
                | Inr capacity_values \<Rightarrow>
                    (case entries sol ''Voltage [V]'' of
                       Inl e \<Rightarrow> Inl e
                     | Inr voltage_values \<Rightarrow>
                         rate_loop lib mode parameters minV maxV rest
                           (graphs
                            @ [\<lparr>name = y_axis_label, fname = None, vals = capacity_values\<rparr>,
                               \<lparr>name = ''Voltage [V]'', fname = Some [Fmt c_rate, Lit ''C''],
                                vals = voltage_values\<rparr>])))))"

definition run_charging_experiments ::
  "pybamm \<Rightarrow> string \<Rightarrow> pyval list \<Rightarrow> string \<Rightarrow> params \<Rightarrow> py_exn + item list" where
  "run_charging_experiments lib battery_type c_rates mode parameters =
     (let experiment_result = [Title (butlast (capitalize mode) @ ''ing at different C Rates'')]
      in case unpack_limits (get_voltage_limits battery_type) of
           Inl e \<Rightarrow> Inl e
         | Inr (minV, maxV) \<Rightarrow>
             (case rate_loop lib mode parameters minV maxV c_rates [] of
                Inl e \<Rightarrow> Inl e
              | Inr graphs \<Rightarrow> Inr (experiment_result @ [Graphs graphs])))"

section \<open>lab2.py\<close>












section \<open>Example inputs\<close>

text \<open>Two cycles holding 3 and 5 samples of the variable \<open>V\<close>, and no other variable.\<close>

definition ex_cycle1 :: cycle where
  "ex_cycle1 v = (if v = ''V'' then Inr [1, 2, 3] else Inl (Exn ''KeyError'' v))"

definition ex_cycle2 :: cycle where
  "ex_cycle2 v = (if v = ''V'' then Inr [4, 5, 6, 7, 8] else Inl (Exn ''KeyError'' v))"


text \<open>One cycle holding two samples of each of the variables \<open>A\<close> and \<open>B\<close>.\<close>

definition ex_cycle_ab :: cycle where
  "ex_cycle_ab v =
     (if v = ''A'' then Inr [1, 2] else if v = ''B'' then Inr [5, 6]
      else Inl (Exn ''KeyError'' v))"

text \<open>A library whose calls all succeed: an empty base set and a two-cycle solution.\<close>

definition ex_lib :: pybamm where
  "ex_lib =
     \<lparr>ParameterValues = (\<lambda>chemistry. Inr Map.empty),
      solve = (\<lambda>model parameters experiment solver kwargs.
                 Inr \<lparr>entries = ex_cycle1, cycles = [ex_cycle1, ex_cycle2]\<rparr>)\<rparr>"

text \<open>
  A base parameter set with nominal capacity 1 and electrode height 1, and the two volume
  fractions of the composite electrode.
\<close>

definition ex_base :: params where
  "ex_base =
     [''Ambient temperature [K]'' \<mapsto> PFloat 298.15,
      ''Nominal cell capacity [A.h]'' \<mapsto> PFloat 1,
      ''Electrode height [m]'' \<mapsto> PFloat 1,
      ''Positive electrode thickness [m]'' \<mapsto> PFloat (756 / 10 ^ 7),
      ''Primary: Negative electrode active material volume fraction'' \<mapsto> PFloat 0.735,
      ''Secondary: Negative electrode active material volume fraction'' \<mapsto> PFloat 0.015]"


text \<open>
  A library whose solver answers one experiment only, the discharge at 1.01 C that ends at
  2.5 V, and fails on every other.
\<close>

definition ex_sweep_solution :: solution where
  "ex_sweep_solution =
     \<lparr>entries = (\<lambda>v. if v = ''Discharge capacity [A.h]'' then Inr [0, 1]
                     else if v = ''Voltage [V]'' then Inr [3.3, 2.5]
                     else Inl (Exn ''KeyError'' v)),
      cycles = []\<rparr>"

definition ex_sweep_lib :: pybamm where
  "ex_sweep_lib =
     \<lparr>ParameterValues = (\<lambda>chemistry. Inr Map.empty),
      solve = (\<lambda>model parameters experiment solver kwargs.
                 if experiment =
                      [[\<lparr>instruction =
                           [Lit ''Discharge at '', Fmt (PFloat 1.01),
                            Lit ''C for 100 hours or until '', Fmt (PFloat 2.5), Lit '' V''],
                         period = None\<rparr>]]
                 then Inr ex_sweep_solution
                 else Inl (Exn ''SolverError'' ''another experiment''))\<rparr>"

section \<open>The arithmetic of the operators\<close>

lemma float_limit_large: "2 ^ 10 < float_limit"
proof -
  have "(2::real) ^ 970 * 2 \<le> 2 ^ 970 * 2 ^ 54"
    by (intro mult_left_mono) simp_all
  then have "(2::real) ^ 970 + 2 ^ 970 \<le> 2 ^ 1024"
    by (simp add: power_add [symmetric])
  moreover have "(2::real) ^ 10 < 2 ^ 970"
    by (rule power_strict_increasing) simp_all
  ultimately show ?thesis unfolding float_limit_def by linarith
qed

lemma small_in_range: "\<bar>x\<bar> \<le> 2 ^ 10 \<Longrightarrow> \<bar>x\<bar> < float_limit"
  using float_limit_large by linarith

lemma as_float_in_range: "\<bar>x\<bar> < float_limit \<Longrightarrow> as_float a x = Inr x"
  by (simp add: as_float_def int_to_float_def)

lemma as_float_Inr: "as_float a x = Inr x' \<Longrightarrow> x' = x"
  by (auto simp: as_float_def int_to_float_def split: if_splits)

lemma truediv_in_range:
  assumes "num_of a = Some x" "num_of b = Some y" "y \<noteq> 0"
    "\<bar>x\<bar> < float_limit" "\<bar>y\<bar> < float_limit" "\<bar>x / y\<bar> < float_limit"
  shows "truediv a b = Inr (PFloat (x / y))"
  using assms by (simp add: truediv_def as_float_in_range)

lemma truediv_Inr:
  assumes "truediv a b = Inr r"
  shows "\<exists>x y. num_of a = Some x \<and> num_of b = Some y \<and> y \<noteq> 0 \<and> r = PFloat (x / y)"
proof -
  from assms obtain x y where n: "num_of a = Some x" "num_of b = Some y"
    by (auto simp: truediv_def split: option.splits)
  show ?thesis
  proof (cases "is_float a \<or> is_float b")
    case True
    with assms n obtain x' y' where "as_float a x = Inr x'" "as_float b y = Inr y'"
      "y' \<noteq> 0" "r = PFloat (x' / y')"
      by (auto simp: truediv_def split: sum.splits if_splits)
    with n show ?thesis by (auto dest: as_float_Inr)
  next
    case False
    with assms n show ?thesis by (auto simp: truediv_def split: if_splits)
  qed
qed

lemma times_float_in_range:
  "num_of a = Some x \<Longrightarrow> \<bar>x\<bar> < float_limit \<Longrightarrow> times_float opr a f = Inr (PFloat (x * f))"
  by (simp add: times_float_def as_float_in_range)

lemma times_float_Inr:
  assumes "times_float opr a f = Inr r"
  shows "\<exists>x. num_of a = Some x \<and> r = PFloat (x * f)"
proof (cases "num_of a")
  case None
  with assms show ?thesis by (cases a) (simp_all add: times_float_def)
next
  case (Some x)
  with assms show ?thesis
    by (auto simp: times_float_def split: sum.splits dest: as_float_Inr)
qed

section \<open>The series reducer\<close>

lemma flatten_cycles_concat:
  "map (\<lambda>c. c v) cs = map Inr xss \<Longrightarrow> flatten_cycles cs v acc = Inr (acc @ concat xss)"
proof (induction cs arbitrary: xss acc)
  case Nil
  then show ?case by simp
next
  case (Cons c cs)
  then obtain xs rest where x: "xss = xs # rest" "c v = Inr xs" "map (\<lambda>c. c v) cs = map Inr rest"
    by (cases xss) auto
  with Cons.IH [of rest "acc @ xs"] show ?case by simp
qed

lemma length_linspace: "length (linspace a b n) = n"
  by (simp add: linspace_def)

lemma linspace_nth:
  assumes "2 \<le> n" "i < n"
  shows "linspace a b n ! i = a + real i * ((b - a) / real (n - 1))"
proof (cases "i = n - 1")
  case True
  with assms show ?thesis by (simp add: linspace_def nth_append)
next
  case False
  with assms have "i < n - 1" by simp
  with assms show ?thesis by (simp add: linspace_def nth_append)
qed

lemma linspace_ends:
  assumes "2 \<le> n"
  shows "hd (linspace a b n) = a \<and> last (linspace a b n) = b"
proof -
  from assms obtain m where m: "n = Suc (Suc m)"
    by (metis Suc_le_D numeral_2_eq_2 Suc_le_mono le0 not0_implies_Suc not_less_eq_eq)
  show ?thesis by (simp add: m linspace_def upt_conv_Cons del: upt_Suc)
qed

text \<open>
  C1. \<open>plot_against_cycle\<close>: when every cycle of the solution has samples for the variable,
  the value series is the concatenation of the cycles' samples in cycle order, and the
  \<open>Cycle\<close> series has as many values as the value series, linearly spaced from 0 to the
  requested cycle count: value \<open>i\<close> of \<open>k\<close> is \<open>i * number_of_cycles / (k - 1)\<close>, the first is
  0 and the last is the cycle count. (One sample gives the axis \<open>[0]\<close>, as
  \<open>numpy.linspace\<close> does; no sample gives the empty axis.)
\<close>

theorem plot_against_cycle_flattens:
  assumes "map (\<lambda>cycle. cycle variable_name) (cycles sol) = map Inr samples"
  shows "\<exists>axis. plot_against_cycle sol number_of_cycles variable_name func_name =
           Inr [\<lparr>name = ''Cycle'', fname = None, vals = axis\<rparr>,
                \<lparr>name = variable_name, fname = Some [Lit func_name], vals = concat samples\<rparr>]
         \<and> length axis = length (concat samples)
         \<and> (length axis = 1 \<longrightarrow> axis = [0])
         \<and> (2 \<le> length axis \<longrightarrow>
              (\<forall>i < length axis. axis ! i = real i * (number_of_cycles / real (length axis - 1)))
              \<and> hd axis = 0 \<and> last axis = number_of_cycles)"
proof -
  let ?k = "length (concat samples)"
  let ?axis = "linspace 0 number_of_cycles ?k"
  have run: "plot_against_cycle sol number_of_cycles variable_name func_name =
           Inr [\<lparr>name = ''Cycle'', fname = None, vals = ?axis\<rparr>,
                \<lparr>name = variable_name, fname = Some [Lit func_name], vals = concat samples\<rparr>]"
    using flatten_cycles_concat [OF assms, of "[]"] by (simp add: plot_against_cycle_def)
  have len: "length ?axis = ?k" by (rule length_linspace)
  have one: "length ?axis = 1 \<longrightarrow> ?axis = [0]" by (simp add: linspace_def)
  have lin: "\<forall>i < length ?axis. ?axis ! i = real i * (number_of_cycles / real (length ?axis - 1))"
    if "2 \<le> length ?axis"
    using that linspace_nth [of ?k _ 0 number_of_cycles] by (simp add: len)
  have ends: "hd ?axis = 0 \<and> last ?axis = number_of_cycles" if "2 \<le> length ?axis"
    using that linspace_ends [of ?k 0 number_of_cycles] by (simp add: len)
  from run len one lin ends show ?thesis by blast
qed

text \<open>
  The instance of the spec: cycles of 3 and 5 samples give 8 values, the first 3 from
  cycle 1 and the next 5 from cycle 2, and an axis of 8 values from 0 to the cycle count.
\<close>

theorem plot_against_cycle_flattens_witness:
  "plot_against_cycle \<lparr>entries = ex_cycle1, cycles = [ex_cycle1, ex_cycle2]\<rparr> 7 ''V'' ''f'' =
     Inr [\<lparr>name = ''Cycle'', fname = None, vals = [0, 1, 2, 3, 4, 5, 6, 7]\<rparr>,
          \<lparr>name = ''V'', fname = Some [Lit ''f''], vals = [1, 2, 3, 4, 5, 6, 7, 8]\<rparr>]"
proof -
  let ?sol = "\<lparr>entries = ex_cycle1, cycles = [ex_cycle1, ex_cycle2]\<rparr>"
  have h: "map (\<lambda>cycle. cycle ''V'') (cycles ?sol) = map Inr [[1, 2, 3], [4, 5, 6, 7, 8]]"
    by (simp add: ex_cycle1_def ex_cycle2_def)
  from plot_against_cycle_flattens [OF h, of 7 "''f''"]
  obtain axis where a: "plot_against_cycle ?sol 7 ''V'' ''f'' =
           Inr [\<lparr>name = ''Cycle'', fname = None, vals = axis\<rparr>,
                \<lparr>name = ''V'', fname = Some [Lit ''f''], vals = concat [[1, 2, 3], [4, 5, 6, 7, 8]]\<rparr>]"
     and l: "length axis = length (concat [[1, 2, 3], [4, 5, 6, 7, 8::real]])"
     and n: "2 \<le> length axis \<longrightarrow>
              (\<forall>i < length axis. axis ! i = real i * (7 / real (length axis - 1)))
              \<and> hd axis = 0 \<and> last axis = 7"
    by blast
  from l have l8: "length axis = 8" by simp
  with n have nth: "\<forall>i < 8. axis ! i = real i" by simp
  have "axis = map (\<lambda>i. axis ! i) [0..<8]" using l8 by (metis map_nth)
  also have "\<dots> = map real [0..<8]" using nth by simp
  also have "\<dots> = [0, 1, 2, 3, 4, 5, 6, 7]" by (simp add: upt_conv_Cons)
  finally show ?thesis using a by simp
qed

text \<open>
  C8. A solution with no cycles gives two series with no values, and no exception.
\<close>

theorem plot_against_cycle_empty:
  "plot_against_cycle (sol\<lparr>cycles := []\<rparr>) number_of_cycles variable_name func_name =
     Inr [\<lparr>name = ''Cycle'', fname = None, vals = []\<rparr>,
          \<lparr>name = variable_name, fname = Some [Lit func_name], vals = []\<rparr>]"
  by (simp add: plot_against_cycle_def linspace_def)

lemma plot_graphs_loop_names:
  "plot_graphs_loop sol n variables ks (Some y) acc = Inr graphs \<Longrightarrow>
     \<exists>new. graphs = acc @ new
       \<and> map name new = concat (map (\<lambda>k. [''Cycle'', y]) ks)
       \<and> map fname new =
           concat (map (\<lambda>k. [None, map_option (\<lambda>f. [Lit f]) (map_of variables k)]) ks)"
proof (induction ks arbitrary: acc)
  case Nil
  then show ?case by simp
next
  case (Cons k ks)
  from Cons.prems obtain flat f where
    fl: "flatten_cycles (cycles sol) k [] = Inr flat" and
    mo: "map_of variables k = Some f" and
    rest: "plot_graphs_loop sol n variables ks (Some y)
            (acc @ [\<lparr>name = ''Cycle'', fname = None, vals = linspace 0 n (length flat)\<rparr>,
                    \<lparr>name = y, fname = Some [Lit f], vals = flat\<rparr>]) = Inr graphs"
    by (auto simp: Let_def split: sum.splits option.splits)
  from Cons.IH [OF rest] obtain new where
    n: "graphs = (acc @ [\<lparr>name = ''Cycle'', fname = None, vals = linspace 0 n (length flat)\<rparr>,
                    \<lparr>name = y, fname = Some [Lit f], vals = flat\<rparr>]) @ new"
       "map name new = concat (map (\<lambda>k. [''Cycle'', y]) ks)"
       "map fname new =
           concat (map (\<lambda>k. [None, map_option (\<lambda>f. [Lit f]) (map_of variables k)]) ks)"
    by blast
  show ?case
  proof (intro exI conjI)
    show "graphs = acc @ ([\<lparr>name = ''Cycle'', fname = None, vals = linspace 0 n (length flat)\<rparr>,
                    \<lparr>name = y, fname = Some [Lit f], vals = flat\<rparr>] @ new)"
      using n(1) by simp
  qed (simp_all add: n mo)
qed

lemma map_of_distinct_keys:
  "distinct (map fst kvs) \<Longrightarrow>
     map (\<lambda>k. [None, map_option g (map_of kvs k)]) (map fst kvs) =
     map (\<lambda>(k, f). [None, Some (g f)]) kvs"
  by (induction kvs) (auto simp: rev_image_eqI)

text \<open>
  C9. \<open>plot_graphs_against_cycle\<close> called with no y axis name: the name is taken from the
  first variable in the first iteration and kept, so every value series, also those of the
  later variables, has the first variable's name in \<open>name\<close>; \<open>fname\<close> is the annotation
  of the series' own variable. The graphs alternate: a \<open>Cycle\<close> axis without \<open>fname\<close>, then
  a value series. (The keys of a dict are distinct.)
\<close>

theorem y_axis_name_is_first_variable:
  assumes run: "plot_graphs_against_cycle sol n ((first, f) # others) None = Inr graphs"
    and keys: "distinct (map fst ((first, f) # others))"
  shows "map name graphs = concat (map (\<lambda>v. [''Cycle'', first]) ((first, f) # others))
       \<and> map fname graphs =
           concat (map (\<lambda>(v, annotation). [None, Some [Lit annotation]]) ((first, f) # others))"
proof -
  let ?vs = "(first, f) # others"
  from run obtain flat where
    fl: "flatten_cycles (cycles sol) first [] = Inr flat" and
    rest: "plot_graphs_loop sol n ?vs (map fst others) (Some first)
            ([] @ [\<lparr>name = ''Cycle'', fname = None, vals = linspace 0 n (length flat)\<rparr>,
                    \<lparr>name = first, fname = Some [Lit f], vals = flat\<rparr>]) = Inr graphs"
    by (auto simp: plot_graphs_against_cycle_def Let_def split: sum.splits)
  from plot_graphs_loop_names [OF rest] obtain new where
    n: "graphs = [\<lparr>name = ''Cycle'', fname = None, vals = linspace 0 n (length flat)\<rparr>,
                    \<lparr>name = first, fname = Some [Lit f], vals = flat\<rparr>] @ new"
       "map name new = concat (map (\<lambda>k. [''Cycle'', first]) (map fst others))"
       "map fname new =
           concat (map (\<lambda>k. [None, map_option (\<lambda>f. [Lit f]) (map_of ?vs k)]) (map fst others))"
    by auto
  have "map (\<lambda>k. [None, map_option (\<lambda>f. [Lit f]) (map_of ?vs k)]) (map fst ?vs) =
        map (\<lambda>(k, f). [None, Some [Lit f]]) ?vs"
    using keys by (rule map_of_distinct_keys)
  then have tail: "map (\<lambda>k. [None, map_option (\<lambda>f. [Lit f]) (map_of ?vs k)]) (map fst others) =
        map (\<lambda>(k, f). [None, Some [Lit f]]) others"
    by (simp only: list.map list.inject fst_conv)
  have names: "map name graphs = concat (map (\<lambda>v. [''Cycle'', first]) ?vs)"
    using n(1,2) by (simp add: comp_def)
  have "map fname new = concat (map (\<lambda>(k, f). [None, Some [Lit f]]) others)"
    by (simp only: n(3) tail)
  then have fnames: "map fname graphs = concat (map (\<lambda>(v, annotation). [None, Some [Lit annotation]]) ?vs)"
    using n(1) by simp
  from names fnames show ?thesis by blast
qed

text \<open>Two variables \<open>A\<close> and \<open>B\<close>: both value series are named \<open>A\<close>.\<close>

theorem y_axis_name_is_first_variable_witness:
  "\<exists>graphs.
     plot_graphs_against_cycle \<lparr>entries = ex_cycle_ab, cycles = [ex_cycle_ab]\<rparr> 3
        [(''A'', ''a''), (''B'', ''b'')] None = Inr graphs
     \<and> map name graphs = [''Cycle'', ''A'', ''Cycle'', ''A'']
     \<and> map fname graphs = [None, Some [Lit ''a''], None, Some [Lit ''b'']]
     \<and> map vals graphs = [[0, 3], [1, 2], [0, 3], [5, 6]]"
proof -
  let ?r = "plot_graphs_against_cycle \<lparr>entries = ex_cycle_ab, cycles = [ex_cycle_ab]\<rparr> 3
        [(''A'', ''a''), (''B'', ''b'')] None"
  let ?graphs = "[\<lparr>name = ''Cycle'', fname = None, vals = [0, 3]\<rparr>,
                    \<lparr>name = ''A'', fname = Some [Lit ''a''], vals = [1, 2]\<rparr>,
                    \<lparr>name = ''Cycle'', fname = None, vals = [0, 3]\<rparr>,
                    \<lparr>name = ''A'', fname = Some [Lit ''b''], vals = [5, 6]\<rparr>]"
  have r: "?r = Inr ?graphs"
    by (simp add: plot_graphs_against_cycle_def ex_cycle_ab_def linspace_def Let_def)
  have d: "distinct (map fst [(''A'', ''a''), (''B'', ''b'')])" by simp
  from y_axis_name_is_first_variable [OF r d]
  have "map name ?graphs = [''Cycle'', ''A'', ''Cycle'', ''A'']
      \<and> map fname ?graphs = [None, Some [Lit ''a''], None, Some [Lit ''b'']]"
    by simp
  with r show ?thesis by simp
qed

section \<open>The rate sweep\<close>

lemma limits_listed:
  "get_voltage_limits ''LFP'' = Some (PFloat 2.5, PFloat 3.65)"
  "get_voltage_limits ''NMC'' = Some (PInt 3, PFloat 4.2)"
  "get_voltage_limits ''NCA'' = Some (PFloat 2.5, PFloat 4.3)"
  by (simp_all add: get_voltage_limits_def)

lemma limits_unlisted:
  "battery_type \<notin> {''LFP'', ''NMC'', ''NCA''} \<Longrightarrow> get_voltage_limits battery_type = None"
  by (simp add: get_voltage_limits_def)

lemma limits_some_iff:
  "get_voltage_limits battery_type \<noteq> None \<longleftrightarrow> battery_type \<in> {''LFP'', ''NMC'', ''NCA''}"
  by (simp add: get_voltage_limits_def)

lemma sweep_unlisted:
  "get_voltage_limits battery_type = None \<Longrightarrow>
     run_charging_experiments lib battery_type c_rates mode parameters =
       Inl (Exn ''TypeError'' ''cannot unpack non-iterable NoneType object'')"
  by (simp add: run_charging_experiments_def unpack_limits_def)

lemma sweep_no_rates:
  "get_voltage_limits battery_type = Some limits \<Longrightarrow>
     run_charging_experiments lib battery_type [] mode parameters =
       Inr [Title (butlast (capitalize mode) @ ''ing at different C Rates''), Graphs []]"
  by (cases limits) (simp add: run_charging_experiments_def unpack_limits_def)

lemma title_charge: "butlast (capitalize ''Charge'') @ ''ing at different C Rates'' = ''Charging at different C Rates''"
  by (simp add: upper_char_def lower_char_def)

lemma title_discharge: "butlast (capitalize ''Discharge'') @ ''ing at different C Rates'' = ''Discharging at different C Rates''"
  by (simp add: upper_char_def lower_char_def)

lemma discharge_loop_agrees:
  assumes "mode \<noteq> ''Charge''"
    and "\<forall>rate. solve lib SPM parameters
            [[\<lparr>instruction = [Lit ''Discharge at '', Fmt rate,
                               Lit ''C for 100 hours or until '', Fmt minV, Lit '' V''],
                period = None\<rparr>]]
            (CasadiSolver ''fast'') [(''initial_soc'', PInt 1)] =
          solve lib' SPM parameters
            [[\<lparr>instruction = [Lit ''Discharge at '', Fmt rate,
                               Lit ''C for 100 hours or until '', Fmt minV, Lit '' V''],
                period = None\<rparr>]]
            (CasadiSolver ''fast'') [(''initial_soc'', PInt 1)]"
  shows "rate_loop lib mode parameters minV maxV c_rates graphs =
         rate_loop lib' mode parameters minV maxV c_rates graphs"
  using assms
  by (induction c_rates arbitrary: graphs)
     (simp_all add: rate_experiment_def split: sum.splits)

lemma charge_loop_agrees:
  assumes "\<forall>rate. solve lib SPM parameters
            [[\<lparr>instruction = [Lit ''Charge at '', Fmt rate,
                               Lit ''C for 100 hours or until '', Fmt maxV, Lit '' V''],
                period = None\<rparr>]]
            (CasadiSolver ''fast'') [(''initial_soc'', PInt 0)] =
          solve lib' SPM parameters
            [[\<lparr>instruction = [Lit ''Charge at '', Fmt rate,
                               Lit ''C for 100 hours or until '', Fmt maxV, Lit '' V''],
                period = None\<rparr>]]
            (CasadiSolver ''fast'') [(''initial_soc'', PInt 0)]"
  shows "rate_loop lib ''Charge'' parameters minV maxV c_rates graphs =
         rate_loop lib' ''Charge'' parameters minV maxV c_rates graphs"
  using assms
  by (induction c_rates arbitrary: graphs)
     (simp_all add: rate_experiment_def split: sum.splits)

lemma sweep_lfp:
  "run_charging_experiments lib ''LFP'' c_rates mode parameters =
     (case rate_loop lib mode parameters (PFloat 2.5) (PFloat 3.65) c_rates [] of
        Inl e \<Rightarrow> Inl e
      | Inr graphs \<Rightarrow>
          Inr [Title (butlast (capitalize mode) @ ''ing at different C Rates''), Graphs graphs])"
  by (simp add: run_charging_experiments_def limits_listed unpack_limits_def split: sum.splits)

lemma sweep_nmc:
  "run_charging_experiments lib ''NMC'' c_rates mode parameters =
     (case rate_loop lib mode parameters (PInt 3) (PFloat 4.2) c_rates [] of
        Inl e \<Rightarrow> Inl e
      | Inr graphs \<Rightarrow>
          Inr [Title (butlast (capitalize mode) @ ''ing at different C Rates''), Graphs graphs])"
  by (simp add: run_charging_experiments_def limits_listed unpack_limits_def split: sum.splits)

lemma discharge_one_rate:
  assumes "plus_float c_rate 0.01 = Inr rate"
  shows "rate_loop lib ''Discharge'' parameters minV maxV [c_rate] [] =
     (case solve lib SPM parameters
             [[\<lparr>instruction = [Lit ''Discharge at '', Fmt rate,
                                Lit ''C for 100 hours or until '', Fmt minV, Lit '' V''],
                 period = None\<rparr>]]
             (CasadiSolver ''fast'') [(''initial_soc'', PInt 1)] of
        Inl e \<Rightarrow> Inl e
      | Inr sol \<Rightarrow>
          (case entries sol ''Discharge capacity [A.h]'' of
             Inl e \<Rightarrow> Inl e
           | Inr capacity_values \<Rightarrow>
               (case entries sol ''Voltage [V]'' of
                  Inl e \<Rightarrow> Inl e
                | Inr voltage_values \<Rightarrow>
                    Inr [\<lparr>name = ''Discharge capacity [A.h]'', fname = None,
                           vals = capacity_values\<rparr>,
                         \<lparr>name = ''Voltage [V]'', fname = Some [Fmt c_rate, Lit ''C''],
                           vals = voltage_values\<rparr>])))"
  using assms by (simp add: rate_experiment_def split: sum.splits)

lemma charge_one_rate:
  assumes "plus_float c_rate 0.01 = Inr rate"
  shows "rate_loop lib ''Charge'' parameters minV maxV [c_rate] [] =
     (case solve lib SPM parameters
             [[\<lparr>instruction = [Lit ''Charge at '', Fmt rate,
                                Lit ''C for 100 hours or until '', Fmt maxV, Lit '' V''],
                 period = None\<rparr>]]
             (CasadiSolver ''fast'') [(''initial_soc'', PInt 0)] of
        Inl e \<Rightarrow> Inl e
      | Inr sol \<Rightarrow>
          (case entries sol ''Throughput capacity [A.h]'' of
             Inl e \<Rightarrow> Inl e
           | Inr capacity_values \<Rightarrow>
               (case entries sol ''Voltage [V]'' of
                  Inl e \<Rightarrow> Inl e
                | Inr voltage_values \<Rightarrow>
                    Inr [\<lparr>name = ''Throughput capacity [A.h]'', fname = None,
                           vals = capacity_values\<rparr>,
                         \<lparr>name = ''Voltage [V]'', fname = Some [Fmt c_rate, Lit ''C''],
                           vals = voltage_values\<rparr>])))"
  using assms by (simp add: rate_experiment_def split: sum.splits)

text \<open>
  C3, as the code has it. The limits are a fixed lookup by chemistry name: LFP (2.5, 3.65),
  NMC (3, 4.2), NCA (2.5, 4.3). A discharge sweep for LFP hands the solver experiments that
  end at 2.5 V, and a charge sweep for NMC experiments that end at 4.2 V: for one C rate
  the result of the sweep is what the solver answers on that experiment (its exception, or
  the two series of its solution), and for any list of C rates two libraries that agree
  on the experiments ending at that voltage give the same sweep. For any other name the
  lookup does not fail: it returns \<open>None\<close>, and the sweep then raises a \<open>TypeError\<close> when
  it unpacks the limits, before any experiment is built.
\<close>

theorem voltage_limits_lookup:
  "get_voltage_limits ''LFP'' = Some (PFloat 2.5, PFloat 3.65)
   \<and> get_voltage_limits ''NMC'' = Some (PInt 3, PFloat 4.2)
   \<and> get_voltage_limits ''NCA'' = Some (PFloat 2.5, PFloat 4.3)
   \<and> (\<forall>c_rate rate. plus_float c_rate 0.01 = Inr rate \<longrightarrow>
          run_charging_experiments lib ''LFP'' [c_rate] ''Discharge'' parameters =
            (case solve lib SPM parameters
              [[\<lparr>instruction = [Lit ''Discharge at '', Fmt rate,
                                 Lit ''C for 100 hours or until '', Fmt (PFloat 2.5),
                                 Lit '' V''],
                  period = None\<rparr>]]
              (CasadiSolver ''fast'') [(''initial_soc'', PInt 1)] of
               Inl e \<Rightarrow> Inl e
             | Inr sol \<Rightarrow>
                 (case entries sol ''Discharge capacity [A.h]'' of
                    Inl e \<Rightarrow> Inl e
                  | Inr capacity_values \<Rightarrow>
                      (case entries sol ''Voltage [V]'' of
                         Inl e \<Rightarrow> Inl e
                       | Inr voltage_values \<Rightarrow>
                           Inr [Title ''Discharging at different C Rates'',
                                Graphs
                                  [\<lparr>name = ''Discharge capacity [A.h]'', fname = None,
                                     vals = capacity_values\<rparr>,
                                   \<lparr>name = ''Voltage [V]'',
                                     fname = Some [Fmt c_rate, Lit ''C''],
                                     vals = voltage_values\<rparr>]]))))
   \<and> (\<forall>lib' c_rates.
          (\<forall>rate. solve lib SPM parameters
              [[\<lparr>instruction = [Lit ''Discharge at '', Fmt rate,
                                 Lit ''C for 100 hours or until '', Fmt (PFloat 2.5),
                                 Lit '' V''],
                  period = None\<rparr>]]
              (CasadiSolver ''fast'') [(''initial_soc'', PInt 1)] =
                  solve lib' SPM parameters
              [[\<lparr>instruction = [Lit ''Discharge at '', Fmt rate,
                                 Lit ''C for 100 hours or until '', Fmt (PFloat 2.5),
                                 Lit '' V''],
                  period = None\<rparr>]]
              (CasadiSolver ''fast'') [(''initial_soc'', PInt 1)]) \<longrightarrow>
          run_charging_experiments lib ''LFP'' c_rates ''Discharge'' parameters =
          run_charging_experiments lib' ''LFP'' c_rates ''Discharge'' parameters)
   \<and> (\<forall>c_rate rate. plus_float c_rate 0.01 = Inr rate \<longrightarrow>
          run_charging_experiments lib ''NMC'' [c_rate] ''Charge'' parameters =
            (case solve lib SPM parameters
              [[\<lparr>instruction = [Lit ''Charge at '', Fmt rate,
                                 Lit ''C for 100 hours or until '', Fmt (PFloat 4.2),
                                 Lit '' V''],
                  period = None\<rparr>]]
              (CasadiSolver ''fast'') [(''initial_soc'', PInt 0)] of
               Inl e \<Rightarrow> Inl e
             | Inr sol \<Rightarrow>
                 (case entries sol ''Throughput capacity [A.h]'' of
                    Inl e \<Rightarrow> Inl e
                  | Inr capacity_values \<Rightarrow>
                      (case entries sol ''Voltage [V]'' of
                         Inl e \<Rightarrow> Inl e
                       | Inr voltage_values \<Rightarrow>
                           Inr [Title ''Charging at different C Rates'',
                                Graphs
                                  [\<lparr>name = ''Throughput capacity [A.h]'', fname = None,
                                     vals = capacity_values\<rparr>,
                                   \<lparr>name = ''Voltage [V]'',
                                     fname = Some [Fmt c_rate, Lit ''C''],
                                     vals = voltage_values\<rparr>]]))))
   \<and> (\<forall>lib' c_rates.
          (\<forall>rate. solve lib SPM parameters
              [[\<lparr>instruction = [Lit ''Charge at '', Fmt rate,
                                 Lit ''C for 100 hours or until '', Fmt (PFloat 4.2),
                                 Lit '' V''],
                  period = None\<rparr>]]
              (CasadiSolver ''fast'') [(''initial_soc'', PInt 0)] =
                  solve lib' SPM parameters
              [[\<lparr>instruction = [Lit ''Charge at '', Fmt rate,
                                 Lit ''C for 100 hours or until '', Fmt (PFloat 4.2),
                                 Lit '' V''],
                  period = None\<rparr>]]
              (CasadiSolver ''fast'') [(''initial_soc'', PInt 0)]) \<longrightarrow>
          run_charging_experiments lib ''NMC'' c_rates ''Charge'' parameters =
          run_charging_experiments lib' ''NMC'' c_rates ''Charge'' parameters)
   \<and> (\<forall>battery_type c_rates mode.
          battery_type \<notin> {''LFP'', ''NMC'', ''NCA''} \<longrightarrow>
          get_voltage_limits battery_type = None
          \<and> run_charging_experiments lib battery_type c_rates mode parameters =
              Inl (Exn ''TypeError'' ''cannot unpack non-iterable NoneType object''))"
proof -
  have s1: "get_voltage_limits ''LFP'' = Some (PFloat 2.5, PFloat 3.65)"
    by (rule limits_listed)
  have s2: "get_voltage_limits ''NMC'' = Some (PInt 3, PFloat 4.2)"
    by (rule limits_listed)
  have s3: "get_voltage_limits ''NCA'' = Some (PFloat 2.5, PFloat 4.3)"
    by (rule limits_listed)
  have s4: "\<forall>c_rate rate. plus_float c_rate 0.01 = Inr rate \<longrightarrow>
          run_charging_experiments lib ''LFP'' [c_rate] ''Discharge'' parameters =
            (case solve lib SPM parameters
              [[\<lparr>instruction = [Lit ''Discharge at '', Fmt rate,
                                 Lit ''C for 100 hours or until '', Fmt (PFloat 2.5),
                                 Lit '' V''],
                  period = None\<rparr>]]
              (CasadiSolver ''fast'') [(''initial_soc'', PInt 1)] of
               Inl e \<Rightarrow> Inl e
             | Inr sol \<Rightarrow>
                 (case entries sol ''Discharge capacity [A.h]'' of
                    Inl e \<Rightarrow> Inl e
                  | Inr capacity_values \<Rightarrow>
                      (case entries sol ''Voltage [V]'' of
                         Inl e \<Rightarrow> Inl e
                       | Inr voltage_values \<Rightarrow>
                           Inr [Title ''Discharging at different C Rates'',
                                Graphs
                                  [\<lparr>name = ''Discharge capacity [A.h]'', fname = None,
                                     vals = capacity_values\<rparr>,
                                   \<lparr>name = ''Voltage [V]'',
                                     fname = Some [Fmt c_rate, Lit ''C''],
                                     vals = voltage_values\<rparr>]])))"
  proof (intro allI impI)
    fix c_rate rate
    assume a: "plus_float c_rate 0.01 = Inr rate"
    show "run_charging_experiments lib ''LFP'' [c_rate] ''Discharge'' parameters =
            (case solve lib SPM parameters
              [[\<lparr>instruction = [Lit ''Discharge at '', Fmt rate,
                                 Lit ''C for 100 hours or until '', Fmt (PFloat 2.5),
                                 Lit '' V''],
                  period = None\<rparr>]]
              (CasadiSolver ''fast'') [(''initial_soc'', PInt 1)] of
               Inl e \<Rightarrow> Inl e
             | Inr sol \<Rightarrow>
                 (case entries sol ''Discharge capacity [A.h]'' of
                    Inl e \<Rightarrow> Inl e
                  | Inr capacity_values \<Rightarrow>
                      (case entries sol ''Voltage [V]'' of
                         Inl e \<Rightarrow> Inl e
                       | Inr voltage_values \<Rightarrow>
                           Inr [Title ''Discharging at different C Rates'',
                                Graphs
                                  [\<lparr>name = ''Discharge capacity [A.h]'', fname = None,
                                     vals = capacity_values\<rparr>,
                                   \<lparr>name = ''Voltage [V]'',
                                     fname = Some [Fmt c_rate, Lit ''C''],
                                     vals = voltage_values\<rparr>]])))"
      unfolding sweep_lfp discharge_one_rate [OF a] title_discharge
      by (simp split: sum.splits)
  qed
  have s5: "\<forall>lib' c_rates.
          (\<forall>rate. solve lib SPM parameters
              [[\<lparr>instruction = [Lit ''Discharge at '', Fmt rate,
                                 Lit ''C for 100 hours or until '', Fmt (PFloat 2.5),
                                 Lit '' V''],
                  period = None\<rparr>]]
              (CasadiSolver ''fast'') [(''initial_soc'', PInt 1)] =
                  solve lib' SPM parameters
              [[\<lparr>instruction = [Lit ''Discharge at '', Fmt rate,
                                 Lit ''C for 100 hours or until '', Fmt (PFloat 2.5),
                                 Lit '' V''],
                  period = None\<rparr>]]
              (CasadiSolver ''fast'') [(''initial_soc'', PInt 1)]) \<longrightarrow>
          run_charging_experiments lib ''LFP'' c_rates ''Discharge'' parameters =
          run_charging_experiments lib' ''LFP'' c_rates ''Discharge'' parameters"
    proof (intro allI impI)
    fix lib' :: pybamm and c_rates :: "pyval list"
    assume "\<forall>rate. solve lib SPM parameters
              [[\<lparr>instruction = [Lit ''Discharge at '', Fmt rate,
                                 Lit ''C for 100 hours or until '', Fmt (PFloat 2.5),
                                 Lit '' V''],
                  period = None\<rparr>]]
              (CasadiSolver ''fast'') [(''initial_soc'', PInt 1)] =
                  solve lib' SPM parameters
              [[\<lparr>instruction = [Lit ''Discharge at '', Fmt rate,
                                 Lit ''C for 100 hours or until '', Fmt (PFloat 2.5),
                                 Lit '' V''],
                  period = None\<rparr>]]
              (CasadiSolver ''fast'') [(''initial_soc'', PInt 1)]"
    then have "rate_loop lib ''Discharge'' parameters (PFloat 2.5) (PFloat 3.65) c_rates [] =
        rate_loop lib' ''Discharge'' parameters (PFloat 2.5) (PFloat 3.65) c_rates []"
      by (intro discharge_loop_agrees) simp_all
    then show "run_charging_experiments lib ''LFP'' c_rates ''Discharge'' parameters =
          run_charging_experiments lib' ''LFP'' c_rates ''Discharge'' parameters"
      by (simp only: sweep_lfp)
  qed
  have s6: "\<forall>c_rate rate. plus_float c_rate 0.01 = Inr rate \<longrightarrow>
          run_charging_experiments lib ''NMC'' [c_rate] ''Charge'' parameters =
            (case solve lib SPM parameters
              [[\<lparr>instruction = [Lit ''Charge at '', Fmt rate,
                                 Lit ''C for 100 hours or until '', Fmt (PFloat 4.2),
                                 Lit '' V''],
                  period = None\<rparr>]]
              (CasadiSolver ''fast'') [(''initial_soc'', PInt 0)] of
               Inl e \<Rightarrow> Inl e
             | Inr sol \<Rightarrow>
                 (case entries sol ''Throughput capacity [A.h]'' of
                    Inl e \<Rightarrow> Inl e
                  | Inr capacity_values \<Rightarrow>
                      (case entries sol ''Voltage [V]'' of
                         Inl e \<Rightarrow> Inl e
                       | Inr voltage_values \<Rightarrow>
                           Inr [Title ''Charging at different C Rates'',
                                Graphs
                                  [\<lparr>name = ''Throughput capacity [A.h]'', fname = None,
                                     vals = capacity_values\<rparr>,
                                   \<lparr>name = ''Voltage [V]'',
                                     fname = Some [Fmt c_rate, Lit ''C''],
                                     vals = voltage_values\<rparr>]])))"
  proof (intro allI impI)
    fix c_rate rate
    assume a: "plus_float c_rate 0.01 = Inr rate"
    show "run_charging_experiments lib ''NMC'' [c_rate] ''Charge'' parameters =
            (case solve lib SPM parameters
              [[\<lparr>instruction = [Lit ''Charge at '', Fmt rate,
                                 Lit ''C for 100 hours or until '', Fmt (PFloat 4.2),
                                 Lit '' V''],
                  period = None\<rparr>]]
              (CasadiSolver ''fast'') [(''initial_soc'', PInt 0)] of
               Inl e \<Rightarrow> Inl e
             | Inr sol \<Rightarrow>
                 (case entries sol ''Throughput capacity [A.h]'' of
                    Inl e \<Rightarrow> Inl e
                  | Inr capacity_values \<Rightarrow>
                      (case entries sol ''Voltage [V]'' of
                         Inl e \<Rightarrow> Inl e
                       | Inr voltage_values \<Rightarrow>
                           Inr [Title ''Charging at different C Rates'',
                                Graphs
                                  [\<lparr>name = ''Throughput capacity [A.h]'', fname = None,
                                     vals = capacity_values\<rparr>,
                                   \<lparr>name = ''Voltage [V]'',
                                     fname = Some [Fmt c_rate, Lit ''C''],
                                     vals = voltage_values\<rparr>]])))"
      unfolding sweep_nmc charge_one_rate [OF a] title_charge
      by (simp split: sum.splits)
  qed
  have s7: "\<forall>lib' c_rates.
          (\<forall>rate. solve lib SPM parameters
              [[\<lparr>instruction = [Lit ''Charge at '', Fmt rate,
                                 Lit ''C for 100 hours or until '', Fmt (PFloat 4.2),
                                 Lit '' V''],
                  period = None\<rparr>]]
              (CasadiSolver ''fast'') [(''initial_soc'', PInt 0)] =
                  solve lib' SPM parameters
              [[\<lparr>instruction = [Lit ''Charge at '', Fmt rate,
                                 Lit ''C for 100 hours or until '', Fmt (PFloat 4.2),
                                 Lit '' V''],
                  period = None\<rparr>]]
              (CasadiSolver ''fast'') [(''initial_soc'', PInt 0)]) \<longrightarrow>
          run_charging_experiments lib ''NMC'' c_rates ''Charge'' parameters =
          run_charging_experiments lib' ''NMC'' c_rates ''Charge'' parameters"
    proof (intro allI impI)
    fix lib' :: pybamm and c_rates :: "pyval list"
    assume "\<forall>rate. solve lib SPM parameters
              [[\<lparr>instruction = [Lit ''Charge at '', Fmt rate,
                                 Lit ''C for 100 hours or until '', Fmt (PFloat 4.2),
                                 Lit '' V''],
                  period = None\<rparr>]]
              (CasadiSolver ''fast'') [(''initial_soc'', PInt 0)] =
                  solve lib' SPM parameters
              [[\<lparr>instruction = [Lit ''Charge at '', Fmt rate,
                                 Lit ''C for 100 hours or until '', Fmt (PFloat 4.2),
                                 Lit '' V''],
                  period = None\<rparr>]]
              (CasadiSolver ''fast'') [(''initial_soc'', PInt 0)]"
    then have "rate_loop lib ''Charge'' parameters (PInt 3) (PFloat 4.2) c_rates [] =
        rate_loop lib' ''Charge'' parameters (PInt 3) (PFloat 4.2) c_rates []"
      by (rule charge_loop_agrees)
    then show "run_charging_experiments lib ''NMC'' c_rates ''Charge'' parameters =
          run_charging_experiments lib' ''NMC'' c_rates ''Charge'' parameters"
      by (simp only: sweep_nmc)
  qed
  have s8: "\<forall>battery_type c_rates mode.
          battery_type \<notin> {''LFP'', ''NMC'', ''NCA''} \<longrightarrow>
          get_voltage_limits battery_type = None
          \<and> run_charging_experiments lib battery_type c_rates mode parameters =
              Inl (Exn ''TypeError'' ''cannot unpack non-iterable NoneType object'')"
    proof (intro allI impI conjI)
    fix battery_type :: string and c_rates mode
    assume "battery_type \<notin> {''LFP'', ''NMC'', ''NCA''}"
    then show none: "get_voltage_limits battery_type = None"
      by (simp add: get_voltage_limits_def)
    then show "run_charging_experiments lib battery_type c_rates mode parameters =
              Inl (Exn ''TypeError'' ''cannot unpack non-iterable NoneType object'')"
      by (simp add: run_charging_experiments_def unpack_limits_def)
  qed
  from s1 s2 s3 s4 s5 s6 s7 s8 show ?thesis by (intro conjI)
qed

text \<open>
  A discharge sweep for LFP at the rate 1, with a solver that answers only the experiment
  ending at 2.5 V; and the unlisted name \<open>LG M50\<close>.
\<close>

theorem voltage_limits_lookup_witness:
  "run_charging_experiments ex_sweep_lib ''LFP'' [PInt 1] ''Discharge'' Map.empty =
     Inr [Title ''Discharging at different C Rates'',
          Graphs [\<lparr>name = ''Discharge capacity [A.h]'', fname = None, vals = [0, 1]\<rparr>,
                  \<lparr>name = ''Voltage [V]'', fname = Some [Fmt (PInt 1), Lit ''C''],
                    vals = [3.3, 2.5]\<rparr>]]
   \<and> get_voltage_limits ''LG M50'' = None
   \<and> run_charging_experiments ex_sweep_lib ''LG M50'' [PInt 1] ''Discharge'' Map.empty =
       Inl (Exn ''TypeError'' ''cannot unpack non-iterable NoneType object'')"
proof -
  note t = voltage_limits_lookup [of ex_sweep_lib Map.empty]
  have rate: "plus_float (PInt 1) 0.01 = Inr (PFloat 1.01)"
    using float_limit_large by (simp add: plus_float_def as_float_def int_to_float_def)
  have unlisted: "''LG M50'' \<notin> {''LFP'', ''NMC'', ''NCA''}" by simp
  from t have "\<forall>c_rate rate. plus_float c_rate 0.01 = Inr rate \<longrightarrow>
      run_charging_experiments ex_sweep_lib ''LFP'' [c_rate] ''Discharge'' Map.empty =
       (case solve ex_sweep_lib SPM Map.empty
              [[\<lparr>instruction = [Lit ''Discharge at '', Fmt rate,
                                 Lit ''C for 100 hours or until '', Fmt (PFloat 2.5),
                                 Lit '' V''],
                  period = None\<rparr>]]
              (CasadiSolver ''fast'') [(''initial_soc'', PInt 1)] of
          Inl e \<Rightarrow> Inl e
        | Inr sol \<Rightarrow>
            (case entries sol ''Discharge capacity [A.h]'' of
               Inl e \<Rightarrow> Inl e
             | Inr capacity_values \<Rightarrow>
                 (case entries sol ''Voltage [V]'' of
                    Inl e \<Rightarrow> Inl e
                  | Inr voltage_values \<Rightarrow>
                      Inr [Title ''Discharging at different C Rates'',
                           Graphs
                             [\<lparr>name = ''Discharge capacity [A.h]'', fname = None,
                                vals = capacity_values\<rparr>,
                              \<lparr>name = ''Voltage [V]'',
                                fname = Some [Fmt c_rate, Lit ''C''],
                                vals = voltage_values\<rparr>]])))"
    by (elim conjE)
  then have "\<forall>rate. plus_float (PInt 1) 0.01 = Inr rate \<longrightarrow>
      run_charging_experiments ex_sweep_lib ''LFP'' [PInt 1] ''Discharge'' Map.empty =
       (case solve ex_sweep_lib SPM Map.empty
              [[\<lparr>instruction = [Lit ''Discharge at '', Fmt rate,
                                 Lit ''C for 100 hours or until '', Fmt (PFloat 2.5),
                                 Lit '' V''],
                  period = None\<rparr>]]
              (CasadiSolver ''fast'') [(''initial_soc'', PInt 1)] of
          Inl e \<Rightarrow> Inl e
        | Inr sol \<Rightarrow>
            (case entries sol ''Discharge capacity [A.h]'' of
               Inl e \<Rightarrow> Inl e
             | Inr capacity_values \<Rightarrow>
                 (case entries sol ''Voltage [V]'' of
                    Inl e \<Rightarrow> Inl e
                  | Inr voltage_values \<Rightarrow>
                      Inr [Title ''Discharging at different C Rates'',
                           Graphs
                             [\<lparr>name = ''Discharge capacity [A.h]'', fname = None,
                                vals = capacity_values\<rparr>,
                              \<lparr>name = ''Voltage [V]'',
                                fname = Some [Fmt (PInt 1), Lit ''C''],
                                vals = voltage_values\<rparr>]])))"
    by (rule spec)
  then have "plus_float (PInt 1) 0.01 = Inr (PFloat 1.01) \<longrightarrow>
      run_charging_experiments ex_sweep_lib ''LFP'' [PInt 1] ''Discharge'' Map.empty =
       (case solve ex_sweep_lib SPM Map.empty
              [[\<lparr>instruction = [Lit ''Discharge at '', Fmt (PFloat 1.01),
                                 Lit ''C for 100 hours or until '', Fmt (PFloat 2.5),
                                 Lit '' V''],
                  period = None\<rparr>]]
              (CasadiSolver ''fast'') [(''initial_soc'', PInt 1)] of
          Inl e \<Rightarrow> Inl e
        | Inr sol \<Rightarrow>
            (case entries sol ''Discharge capacity [A.h]'' of
               Inl e \<Rightarrow> Inl e
             | Inr capacity_values \<Rightarrow>
                 (case entries sol ''Voltage [V]'' of
                    Inl e \<Rightarrow> Inl e
                  | Inr voltage_values \<Rightarrow>
                      Inr [Title ''Discharging at different C Rates'',
                           Graphs
                             [\<lparr>name = ''Discharge capacity [A.h]'', fname = None,
                                vals = capacity_values\<rparr>,
                              \<lparr>name = ''Voltage [V]'',
                                fname = Some [Fmt (PInt 1), Lit ''C''],
                                vals = voltage_values\<rparr>]])))"
    by (rule spec)
  then have
    "run_charging_experiments ex_sweep_lib ''LFP'' [PInt 1] ''Discharge'' Map.empty =
       (case solve ex_sweep_lib SPM Map.empty
              [[\<lparr>instruction = [Lit ''Discharge at '', Fmt (PFloat 1.01),
                                 Lit ''C for 100 hours or until '', Fmt (PFloat 2.5),
                                 Lit '' V''],
                  period = None\<rparr>]]
              (CasadiSolver ''fast'') [(''initial_soc'', PInt 1)] of
          Inl e \<Rightarrow> Inl e
        | Inr sol \<Rightarrow>
            (case entries sol ''Discharge capacity [A.h]'' of
               Inl e \<Rightarrow> Inl e
             | Inr capacity_values \<Rightarrow>
                 (case entries sol ''Voltage [V]'' of
                    Inl e \<Rightarrow> Inl e
                  | Inr voltage_values \<Rightarrow>
                      Inr [Title ''Discharging at different C Rates'',
                           Graphs
                             [\<lparr>name = ''Discharge capacity [A.h]'', fname = None,
                                vals = capacity_values\<rparr>,
                              \<lparr>name = ''Voltage [V]'',
                                fname = Some [Fmt (PInt 1), Lit ''C''],
                                vals = voltage_values\<rparr>]])))"
    using rate by (rule mp)
  then have w1: "run_charging_experiments ex_sweep_lib ''LFP'' [PInt 1] ''Discharge'' Map.empty =
     Inr [Title ''Discharging at different C Rates'',
          Graphs [\<lparr>name = ''Discharge capacity [A.h]'', fname = None, vals = [0, 1]\<rparr>,
                  \<lparr>name = ''Voltage [V]'', fname = Some [Fmt (PInt 1), Lit ''C''],
                    vals = [3.3, 2.5]\<rparr>]]"
    by (simp add: ex_sweep_lib_def ex_sweep_solution_def)
  from t have "\<forall>battery_type c_rates mode.
          battery_type \<notin> {''LFP'', ''NMC'', ''NCA''} \<longrightarrow>
          get_voltage_limits battery_type = None
          \<and> run_charging_experiments ex_sweep_lib battery_type c_rates mode Map.empty =
              Inl (Exn ''TypeError'' ''cannot unpack non-iterable NoneType object'')"
    by (elim conjE)
  then have "\<forall>c_rates mode.
          ''LG M50'' \<notin> {''LFP'', ''NMC'', ''NCA''} \<longrightarrow>
          get_voltage_limits ''LG M50'' = None
          \<and> run_charging_experiments ex_sweep_lib ''LG M50'' c_rates mode Map.empty =
              Inl (Exn ''TypeError'' ''cannot unpack non-iterable NoneType object'')"
    by (rule spec)
  then have "\<forall>mode.
          ''LG M50'' \<notin> {''LFP'', ''NMC'', ''NCA''} \<longrightarrow>
          get_voltage_limits ''LG M50'' = None
          \<and> run_charging_experiments ex_sweep_lib ''LG M50'' [PInt 1] mode Map.empty =
              Inl (Exn ''TypeError'' ''cannot unpack non-iterable NoneType object'')"
    by (rule spec)
  then have "''LG M50'' \<notin> {''LFP'', ''NMC'', ''NCA''} \<longrightarrow>
          get_voltage_limits ''LG M50'' = None
          \<and> run_charging_experiments ex_sweep_lib ''LG M50'' [PInt 1] ''Discharge'' Map.empty =
              Inl (Exn ''TypeError'' ''cannot unpack non-iterable NoneType object'')"
    by (rule spec)
  then have w2: "get_voltage_limits ''LG M50'' = None
          \<and> run_charging_experiments ex_sweep_lib ''LG M50'' [PInt 1] ''Discharge'' Map.empty =
              Inl (Exn ''TypeError'' ''cannot unpack non-iterable NoneType object'')"
    using unlisted by (rule mp)
  from w1 w2 show ?thesis by (rule conjI)
qed

text \<open>
  C3 as stated fails: the lookup of \<open>Silicon\<close> returns \<open>None\<close> and raises nothing, and the
  exception of the sweep is a \<open>TypeError\<close>, not \<open>NoVoltageLimits\<close>.
\<close>

theorem unlisted_chemistry_counterexample:
  "get_voltage_limits ''Silicon'' = None
   \<and> run_charging_experiments ex_lib ''Silicon'' [PInt 1] ''Charge'' Map.empty =
       Inl (Exn ''TypeError'' ''cannot unpack non-iterable NoneType object'')
   \<and> exn_class (Exn ''TypeError'' ''cannot unpack non-iterable NoneType object'')
       \<noteq> ''NoVoltageLimits''"
  by (simp add: get_voltage_limits_def run_charging_experiments_def unpack_limits_def)

text \<open>
  C4 as stated fails: a sweep of no rates for LFP returns a title and an empty list of
  graphs.
\<close>

theorem empty_rate_list_counterexample:
  "run_charging_experiments ex_lib ''LFP'' [] ''Charge'' Map.empty =
     Inr [Title ''Charging at different C Rates'', Graphs []]"
  using sweep_no_rates [OF limits_listed(1), of ex_lib "''Charge''" Map.empty]
  unfolding title_charge .

text \<open>
  C4, as the code has it. For a chemistry with voltage limits, a sweep of an empty list of
  C rates returns normally: the title and an empty list of graphs. No solver call is made
  (the library does not occur in the result).
\<close>

theorem empty_rate_list_returns:
  assumes "battery_type \<in> {''LFP'', ''NMC'', ''NCA''}"
  shows "run_charging_experiments lib battery_type [] mode parameters =
           Inr [Title (butlast (capitalize mode) @ ''ing at different C Rates''), Graphs []]"
proof -
  from assms have "get_voltage_limits battery_type \<noteq> None"
    by (simp only: limits_some_iff)
  then obtain limits where "get_voltage_limits battery_type = Some limits"
    by (cases "get_voltage_limits battery_type") simp_all
  then show ?thesis by (rule sweep_no_rates)
qed

text \<open>A discharge sweep of no rates for NMC.\<close>

theorem empty_rate_list_returns_witness:
  "run_charging_experiments ex_lib ''NMC'' [] ''Discharge'' Map.empty =
     Inr [Title ''Discharging at different C Rates'', Graphs []]"
proof -
  have "''NMC'' \<in> {''LFP'', ''NMC'', ''NCA''}" by simp
  from empty_rate_list_returns [OF this, of ex_lib "''Discharge''" Map.empty]
  show ?thesis unfolding title_discharge .
qed

text \<open>
  C10. The names with a base parameter set (the keys of \<open>batteries\<close>) strictly contain the
  names with voltage limits (LFP, NMC, NCA). For every key of \<open>batteries\<close> outside these
  three the lookup returns \<open>None\<close> and a rate sweep raises, whatever the rates, the mode,
  the parameters and the library.
\<close>

theorem limits_cover_fewer_chemistries:
  "{battery_type. get_voltage_limits battery_type \<noteq> None} \<subset> set (map fst batteries)
   \<and> {battery_type. get_voltage_limits battery_type \<noteq> None} = {''LFP'', ''NMC'', ''NCA''}
   \<and> set (map fst batteries) = {''NMC'', ''NCA'', ''LFP'', ''LG M50'', ''Silicon'', ''LFPBackup''}
   \<and> (\<forall>battery_type \<in> set (map fst batteries).
         battery_type \<notin> {''LFP'', ''NMC'', ''NCA''} \<longrightarrow>
           get_voltage_limits battery_type = None
           \<and> (\<exists>e. run_charging_experiments lib battery_type c_rates mode parameters = Inl e))"
proof (intro conjI ballI impI)
  show keys: "set (map fst batteries) =
      {''NMC'', ''NCA'', ''LFP'', ''LG M50'', ''Silicon'', ''LFPBackup''}"
    by (simp add: batteries_def)
  show lim: "{battery_type. get_voltage_limits battery_type \<noteq> None} = {''LFP'', ''NMC'', ''NCA''}"
    by (simp only: limits_some_iff Collect_mem_eq)
  have sub: "{''LFP'', ''NMC'', ''NCA''} \<subseteq> set (map fst batteries)"
    by (simp add: batteries_def)
  have more: "''Silicon'' \<in> set (map fst batteries)" "''Silicon'' \<notin> {''LFP'', ''NMC'', ''NCA''}"
    by (simp_all add: batteries_def)
  have "{''LFP'', ''NMC'', ''NCA''} \<noteq> set (map fst batteries)"
    using more by (metis)
  with sub have "{''LFP'', ''NMC'', ''NCA''} \<subset> set (map fst batteries)"
    by (rule psubsetI)
  then show "{battery_type. get_voltage_limits battery_type \<noteq> None} \<subset> set (map fst batteries)"
    by (simp only: lim)
next
  fix battery_type :: string
  assume "battery_type \<notin> {''LFP'', ''NMC'', ''NCA''}"
  then show none: "get_voltage_limits battery_type = None"
    by (rule limits_unlisted)
  have "run_charging_experiments lib battery_type c_rates mode parameters =
          Inl (Exn ''TypeError'' ''cannot unpack non-iterable NoneType object'')"
    using none by (rule sweep_unlisted)
  then show "\<exists>e. run_charging_experiments lib battery_type c_rates mode parameters = Inl e"
    by (rule exI)
qed

text \<open>The key \<open>LFPBackup\<close>.\<close>

theorem limits_cover_fewer_chemistries_witness:
  "map_of batteries ''LFPBackup'' = Some ''Ecker2015''
   \<and> get_voltage_limits ''LFPBackup'' = None
   \<and> (\<exists>e. run_charging_experiments ex_lib ''LFPBackup'' [PInt 1] ''Charge'' Map.empty = Inl e)"
proof -
  have k: "''LFPBackup'' \<in> set (map fst batteries)" by (simp add: batteries_def)
  have u: "''LFPBackup'' \<notin> {''LFP'', ''NMC'', ''NCA''}" by simp
  have m: "map_of batteries ''LFPBackup'' = Some ''Ecker2015''" by (simp add: batteries_def)
  have "\<forall>battery_type \<in> set (map fst batteries).
         battery_type \<notin> {''LFP'', ''NMC'', ''NCA''} \<longrightarrow>
           get_voltage_limits battery_type = None
           \<and> (\<exists>e. run_charging_experiments ex_lib battery_type [PInt 1] ''Charge'' Map.empty = Inl e)"
    using limits_cover_fewer_chemistries [of ex_lib "[PInt 1]" "''Charge''" Map.empty]
    by (elim conjE)
  then have "''LFPBackup'' \<notin> {''LFP'', ''NMC'', ''NCA''} \<longrightarrow>
           get_voltage_limits ''LFPBackup'' = None
           \<and> (\<exists>e. run_charging_experiments ex_lib ''LFPBackup'' [PInt 1] ''Charge'' Map.empty = Inl e)"
    using k by (rule bspec)
  then have "get_voltage_limits ''LFPBackup'' = None
           \<and> (\<exists>e. run_charging_experiments ex_lib ''LFPBackup'' [PInt 1] ''Charge'' Map.empty = Inl e)"
    using u by (rule mp)
  with m show ?thesis by (rule conjI)
qed

section \<open>The parameter merge\<close>

lemma truthy_ne_zero: "truthy v \<Longrightarrow> ne_zero v"
  by (cases v) simp_all

lemma guard_truthy: "(truthy v \<and> ne_zero v) = truthy v"
  using truthy_ne_zero by blast

lemma truthy_num: "num_of v = Some x \<Longrightarrow> truthy v = (x \<noteq> 0)"
  by (cases v) (auto split: if_splits)

lemma update_temperature_apply:
  "update_temperature P t k =
     (if truthy t \<and> k = ''Ambient temperature [K]'' then Some t else P k)"
  by (simp add: update_temperature_def guard_truthy update_def)

lemma update_thickness_apply:
  "update_thickness P th k =
     (if truthy th \<and> k = ''Positive electrode thickness [m]'' then Some th else P k)"
  by (simp add: update_thickness_def guard_truthy update_def)

lemma update_capacity_falsy: "\<not> truthy c \<Longrightarrow> update_capacity P c = Inr P"
  by (simp add: update_capacity_def)

lemma update_silicon_falsy: "\<not> truthy s \<Longrightarrow> update_silicon P s = Inr P"
  by (simp add: update_silicon_def)

lemma update_capacity_truthy:
  assumes t: "truthy c" and run: "update_capacity P c = Inr P'"
  shows "\<exists>x n h. num_of c = Some x \<and> n \<noteq> 0
           \<and> num_of (params_get P ''Nominal cell capacity [A.h]'') = Some n
           \<and> num_of (params_get P ''Electrode height [m]'') = Some h
           \<and> P' = P(''Electrode height [m]'' \<mapsto> PFloat (h * (x / n)))"
proof -
  from t have g: "truthy c \<and> ne_zero c" by (simp add: truthy_ne_zero)
  from run g obtain ratio new_height where
    d: "truediv c (params_get P ''Nominal cell capacity [A.h]'') = Inr ratio" and
    m: "times_float ''*'' (params_get P ''Electrode height [m]'') (the (num_of ratio))
          = Inr new_height" and
    p: "P' = P(''Electrode height [m]'' \<mapsto> new_height)"
    by (auto simp: update_capacity_def Let_def update_def split: sum.splits)
  from truediv_Inr [OF d] obtain x n where
    xn: "num_of c = Some x" "num_of (params_get P ''Nominal cell capacity [A.h]'') = Some n"
      "n \<noteq> 0" "ratio = PFloat (x / n)"
    by blast
  from times_float_Inr [OF m] obtain h where
    h: "num_of (params_get P ''Electrode height [m]'') = Some h"
      "new_height = PFloat (h * the (num_of ratio))"
    by blast
  from xn h p show ?thesis by simp
qed

lemma update_capacity_other:
  assumes "update_capacity P c = Inr P'" "k \<noteq> ''Electrode height [m]''"
  shows "P' k = P k"
proof (cases "truthy c")
  case True
  from update_capacity_truthy [OF True assms(1)] assms(2) show ?thesis by auto
next
  case False
  with assms show ?thesis by (simp add: update_capacity_falsy)
qed

lemma update_capacity_numeric:
  assumes "num_of c = Some x" "x \<noteq> 0"
    "num_of (params_get P ''Nominal cell capacity [A.h]'') = Some n" "n \<noteq> 0"
    "num_of (params_get P ''Electrode height [m]'') = Some h"
    "\<bar>x\<bar> < float_limit" "\<bar>n\<bar> < float_limit" "\<bar>h\<bar> < float_limit"
    "\<bar>x / n\<bar> < float_limit"
  shows "update_capacity P c = Inr (P(''Electrode height [m]'' \<mapsto> PFloat (h * (x / n))))"
proof -
  from truthy_num [OF assms(1)] assms(2) have t: "truthy c \<and> ne_zero c"
    by (simp add: truthy_ne_zero)
  have d: "truediv c (params_get P ''Nominal cell capacity [A.h]'') = Inr (PFloat (x / n))"
    using assms by (intro truediv_in_range) simp_all
  have m: "times_float ''*'' (params_get P ''Electrode height [m]'') (x / n)
             = Inr (PFloat (h * (x / n)))"
    using assms by (intro times_float_in_range) simp_all
  show ?thesis
    using t by (simp add: update_capacity_def Let_def update_def d m)
qed

lemma update_silicon_truthy:
  assumes "truthy s" "update_silicon P s = Inr P'"
  shows "\<exists>p. num_of s = Some p
           \<and> P' = P(''Primary: Negative electrode active material volume fraction'' \<mapsto>
                       PFloat (1 - p * 0.5),
                    ''Secondary: Negative electrode active material volume fraction'' \<mapsto>
                       PFloat (p * 0.5))"
proof -
  from assms obtain s' where
    m: "times_float ''*='' s 0.5 = Inr s'" and
    p: "P' = P(''Primary: Negative electrode active material volume fraction'' \<mapsto>
                       PFloat (1 - the (num_of s')),
                    ''Secondary: Negative electrode active material volume fraction'' \<mapsto> s')"
    by (auto simp: update_silicon_def update_def split: sum.splits)
  from times_float_Inr [OF m] obtain x where "num_of s = Some x" "s' = PFloat (x * 0.5)"
    by blast
  with p show ?thesis by simp
qed

lemma update_silicon_other:
  assumes "update_silicon P s = Inr P'"
    "k \<noteq> ''Primary: Negative electrode active material volume fraction''"
    "k \<noteq> ''Secondary: Negative electrode active material volume fraction''"
  shows "P' k = P k"
proof (cases "truthy s")
  case True
  from update_silicon_truthy [OF True assms(1)] assms(2,3) show ?thesis by auto
next
  case False
  with assms show ?thesis by (simp add: update_silicon_falsy)
qed

lemma update_silicon_numeric:
  assumes "num_of s = Some p" "p \<noteq> 0" "\<bar>p\<bar> < float_limit"
  shows "update_silicon P s =
           Inr (P(''Primary: Negative electrode active material volume fraction'' \<mapsto>
                       PFloat (1 - p * 0.5),
                    ''Secondary: Negative electrode active material volume fraction'' \<mapsto>
                       PFloat (p * 0.5)))"
proof -
  from truthy_num [OF assms(1)] assms(2) have t: "truthy s" by simp
  have m: "times_float ''*='' s 0.5 = Inr (PFloat (p * 0.5))"
    using assms by (intro times_float_in_range) simp_all
  show ?thesis
    unfolding update_silicon_def using t m
    by (simp only: if_True sum.case) (simp add: update_def)
qed

lemma update_silicon_returns:
  assumes "truthy silicon \<longrightarrow> (\<exists>p. num_of silicon = Some p \<and> \<bar>p\<bar> < float_limit)"
  shows "\<exists>P'. update_silicon P silicon = Inr P'"
proof (cases "truthy silicon")
  case True
  with assms obtain p where p: "num_of silicon = Some p" "\<bar>p\<bar> < float_limit" by auto
  from True truthy_num [OF p(1)] have "p \<noteq> 0" by simp
  with p show ?thesis by (simp add: update_silicon_numeric)
next
  case False
  then show ?thesis by (simp add: update_silicon_falsy)
qed

lemma update_capacity_returns:
  assumes "truthy capacity \<longrightarrow>
     (\<exists>x n h. num_of capacity = Some x
        \<and> num_of (params_get P ''Nominal cell capacity [A.h]'') = Some n \<and> n \<noteq> 0
        \<and> num_of (params_get P ''Electrode height [m]'') = Some h
        \<and> \<bar>x\<bar> < float_limit \<and> \<bar>n\<bar> < float_limit \<and> \<bar>h\<bar> < float_limit
        \<and> \<bar>x / n\<bar> < float_limit)"
  shows "\<exists>P'. update_capacity P capacity = Inr P'"
proof (cases "truthy capacity")
  case True
  with assms have "\<exists>x n h. num_of capacity = Some x
        \<and> num_of (params_get P ''Nominal cell capacity [A.h]'') = Some n \<and> n \<noteq> 0
        \<and> num_of (params_get P ''Electrode height [m]'') = Some h
        \<and> \<bar>x\<bar> < float_limit \<and> \<bar>n\<bar> < float_limit \<and> \<bar>h\<bar> < float_limit
        \<and> \<bar>x / n\<bar> < float_limit"
    by (rule mp)
  then obtain x n h where
    a: "num_of capacity = Some x"
      "num_of (params_get P ''Nominal cell capacity [A.h]'') = Some n" "n \<noteq> 0"
      "num_of (params_get P ''Electrode height [m]'') = Some h"
      "\<bar>x\<bar> < float_limit" "\<bar>n\<bar> < float_limit" "\<bar>h\<bar> < float_limit"
      "\<bar>x / n\<bar> < float_limit"
    by (elim exE conjE)
  from True truthy_num [OF a(1)] have "x \<noteq> 0" by simp
  from update_capacity_numeric [OF a(1) this a(2) a(3) a(4) a(5) a(6) a(7) a(8)]
  show ?thesis by simp
next
  case False
  then show ?thesis by (simp add: update_capacity_falsy)
qed

lemma params_get_update_temperature:
  "k \<noteq> ''Ambient temperature [K]'' \<Longrightarrow>
     params_get (update_temperature P t) k = params_get P k"
  by (simp add: params_get_def update_temperature_apply)

lemma update_parameters_stages:
  assumes "update_parameters P t c th s = Inr P'"
  obtains P1 where "update_capacity (update_temperature P t) c = Inr P1"
    and "update_silicon (update_thickness P1 th) s = Inr P'"
  using assms by (auto simp: update_parameters_def split: sum.splits)

lemma ex_base_values:
  "params_get ex_base ''Nominal cell capacity [A.h]'' = PFloat 1"
  "params_get ex_base ''Electrode height [m]'' = PFloat 1"
  "ex_base ''Nominal cell capacity [A.h]'' = Some (PFloat 1)"
  "ex_base ''Electrode height [m]'' = Some (PFloat 1)"
  "ex_base ''Ambient temperature [K]'' = Some (PFloat 298.15)"
  "ex_base ''Positive electrode thickness [m]'' = Some (PFloat (756 / 10 ^ 7))"
  "ex_base ''Primary: Negative electrode active material volume fraction'' = Some (PFloat 0.735)"
  "ex_base ''Secondary: Negative electrode active material volume fraction'' = Some (PFloat 0.015)"
  by (simp_all add: params_get_def ex_base_def)

text \<open>
  C2. Each of the four override fields of the merge is a no-op when its value is absent
  (\<open>None\<close>), zero or empty, and overwrites otherwise. Whenever the merge returns: the
  temperature and the positive electrode thickness are then the override value itself;
  the capacity override has written the electrode height it is translated into, and the
  silicon percentage the two volume fractions it is split into; with all four absent,
  zero or empty the parameter set is unchanged. And the merge does return when a capacity
  and a silicon percentage that are given are numbers in the range of a float, the base
  capacity and height being such numbers too and the capacity not 0.
\<close>

theorem merge_overrides:
  "(\<forall>P'. update_parameters P temperature capacity thickness silicon = Inr P' \<longrightarrow>
       P' ''Ambient temperature [K]'' =
           (if truthy temperature then Some temperature else P ''Ambient temperature [K]'')
       \<and> P' ''Positive electrode thickness [m]'' =
           (if truthy thickness then Some thickness
            else P ''Positive electrode thickness [m]'')
       \<and> (if truthy capacity then
             (\<exists>x n h. num_of capacity = Some x \<and> n \<noteq> 0
               \<and> num_of (params_get P ''Nominal cell capacity [A.h]'') = Some n
               \<and> num_of (params_get P ''Electrode height [m]'') = Some h
               \<and> P' ''Electrode height [m]'' = Some (PFloat (h * (x / n))))
           else P' ''Electrode height [m]'' = P ''Electrode height [m]'')
       \<and> (if truthy silicon then
             (\<exists>p. num_of silicon = Some p
               \<and> P' ''Primary: Negative electrode active material volume fraction'' =
                   Some (PFloat (1 - p * 0.5))
               \<and> P' ''Secondary: Negative electrode active material volume fraction'' =
                   Some (PFloat (p * 0.5)))
           else P' ''Primary: Negative electrode active material volume fraction'' =
                  P ''Primary: Negative electrode active material volume fraction''
              \<and> P' ''Secondary: Negative electrode active material volume fraction'' =
                  P ''Secondary: Negative electrode active material volume fraction'')
       \<and> (\<not> truthy temperature \<and> \<not> truthy capacity \<and> \<not> truthy thickness
            \<and> \<not> truthy silicon \<longrightarrow> P' = P))
   \<and> ((truthy capacity \<longrightarrow>
          (\<exists>x n h. num_of capacity = Some x
              \<and> num_of (params_get P ''Nominal cell capacity [A.h]'') = Some n \<and> n \<noteq> 0
              \<and> num_of (params_get P ''Electrode height [m]'') = Some h
              \<and> \<bar>x\<bar> < float_limit \<and> \<bar>n\<bar> < float_limit \<and> \<bar>h\<bar> < float_limit
              \<and> \<bar>x / n\<bar> < float_limit))
        \<and> (truthy silicon \<longrightarrow> (\<exists>p. num_of silicon = Some p \<and> \<bar>p\<bar> < float_limit))
        \<longrightarrow> (\<exists>P'. update_parameters P temperature capacity thickness silicon = Inr P'))"
proof (rule conjI)
  show "\<forall>P'. update_parameters P temperature capacity thickness silicon = Inr P' \<longrightarrow>
       P' ''Ambient temperature [K]'' =
           (if truthy temperature then Some temperature else P ''Ambient temperature [K]'')
       \<and> P' ''Positive electrode thickness [m]'' =
           (if truthy thickness then Some thickness
            else P ''Positive electrode thickness [m]'')
       \<and> (if truthy capacity then
             (\<exists>x n h. num_of capacity = Some x \<and> n \<noteq> 0
               \<and> num_of (params_get P ''Nominal cell capacity [A.h]'') = Some n
               \<and> num_of (params_get P ''Electrode height [m]'') = Some h
               \<and> P' ''Electrode height [m]'' = Some (PFloat (h * (x / n))))
           else P' ''Electrode height [m]'' = P ''Electrode height [m]'')
       \<and> (if truthy silicon then
             (\<exists>p. num_of silicon = Some p
               \<and> P' ''Primary: Negative electrode active material volume fraction'' =
                   Some (PFloat (1 - p * 0.5))
               \<and> P' ''Secondary: Negative electrode active material volume fraction'' =
                   Some (PFloat (p * 0.5)))
           else P' ''Primary: Negative electrode active material volume fraction'' =
                  P ''Primary: Negative electrode active material volume fraction''
              \<and> P' ''Secondary: Negative electrode active material volume fraction'' =
                  P ''Secondary: Negative electrode active material volume fraction'')
       \<and> (\<not> truthy temperature \<and> \<not> truthy capacity \<and> \<not> truthy thickness
            \<and> \<not> truthy silicon \<longrightarrow> P' = P)"
  proof (intro allI impI)
  fix P'
  assume run: "update_parameters P temperature capacity thickness silicon = Inr P'"
  show "P' ''Ambient temperature [K]'' =
           (if truthy temperature then Some temperature else P ''Ambient temperature [K]'')
       \<and> P' ''Positive electrode thickness [m]'' =
           (if truthy thickness then Some thickness
            else P ''Positive electrode thickness [m]'')
       \<and> (if truthy capacity then
             (\<exists>x n h. num_of capacity = Some x \<and> n \<noteq> 0
               \<and> num_of (params_get P ''Nominal cell capacity [A.h]'') = Some n
               \<and> num_of (params_get P ''Electrode height [m]'') = Some h
               \<and> P' ''Electrode height [m]'' = Some (PFloat (h * (x / n))))
           else P' ''Electrode height [m]'' = P ''Electrode height [m]'')
       \<and> (if truthy silicon then
             (\<exists>p. num_of silicon = Some p
               \<and> P' ''Primary: Negative electrode active material volume fraction'' =
                   Some (PFloat (1 - p * 0.5))
               \<and> P' ''Secondary: Negative electrode active material volume fraction'' =
                   Some (PFloat (p * 0.5)))
           else P' ''Primary: Negative electrode active material volume fraction'' =
                  P ''Primary: Negative electrode active material volume fraction''
              \<and> P' ''Secondary: Negative electrode active material volume fraction'' =
                  P ''Secondary: Negative electrode active material volume fraction'')
       \<and> (\<not> truthy temperature \<and> \<not> truthy capacity \<and> \<not> truthy thickness
            \<and> \<not> truthy silicon \<longrightarrow> P' = P)"
  proof -
  from run obtain P1 where
    cap: "update_capacity (update_temperature P temperature) capacity = Inr P1" and
    sil: "update_silicon (update_thickness P1 thickness) silicon = Inr P'"
    by (rule update_parameters_stages)
  have temp: "P' ''Ambient temperature [K]'' =
           (if truthy temperature then Some temperature else P ''Ambient temperature [K]'')"
    using update_silicon_other [OF sil, of "''Ambient temperature [K]''"]
      update_capacity_other [OF cap, of "''Ambient temperature [K]''"]
    by (simp add: update_thickness_apply update_temperature_apply)
  have thick: "P' ''Positive electrode thickness [m]'' =
           (if truthy thickness then Some thickness
            else P ''Positive electrode thickness [m]'')"
    using update_silicon_other [OF sil, of "''Positive electrode thickness [m]''"]
      update_capacity_other [OF cap, of "''Positive electrode thickness [m]''"]
    by (simp add: update_thickness_apply update_temperature_apply)
  have height_kept: "P' ''Electrode height [m]'' = P1 ''Electrode height [m]''"
    using update_silicon_other [OF sil, of "''Electrode height [m]''"]
    by (simp add: update_thickness_apply)
  have height: "if truthy capacity then
             (\<exists>x n h. num_of capacity = Some x \<and> n \<noteq> 0
               \<and> num_of (params_get P ''Nominal cell capacity [A.h]'') = Some n
               \<and> num_of (params_get P ''Electrode height [m]'') = Some h
               \<and> P' ''Electrode height [m]'' = Some (PFloat (h * (x / n))))
           else P' ''Electrode height [m]'' = P ''Electrode height [m]''"
  proof (cases "truthy capacity")
    case True
    from update_capacity_truthy [OF True cap] obtain x n h where
      "num_of capacity = Some x" "n \<noteq> 0"
      "num_of (params_get (update_temperature P temperature) ''Nominal cell capacity [A.h]'')
         = Some n"
      "num_of (params_get (update_temperature P temperature) ''Electrode height [m]'') = Some h"
      "P1 = (update_temperature P temperature)(''Electrode height [m]'' \<mapsto> PFloat (h * (x / n)))"
      by blast
    then have "num_of capacity = Some x \<and> n \<noteq> 0
               \<and> num_of (params_get P ''Nominal cell capacity [A.h]'') = Some n
               \<and> num_of (params_get P ''Electrode height [m]'') = Some h
               \<and> P' ''Electrode height [m]'' = Some (PFloat (h * (x / n)))"
      by (simp add: height_kept params_get_def update_temperature_apply)
    with True show ?thesis by auto
  next
    case False
    with cap have "P1 = update_temperature P temperature"
      by (simp add: update_capacity_falsy)
    with False show ?thesis by (simp add: height_kept update_temperature_apply)
  qed
  have fractions: "if truthy silicon then
             (\<exists>p. num_of silicon = Some p
               \<and> P' ''Primary: Negative electrode active material volume fraction'' =
                   Some (PFloat (1 - p * 0.5))
               \<and> P' ''Secondary: Negative electrode active material volume fraction'' =
                   Some (PFloat (p * 0.5)))
           else P' ''Primary: Negative electrode active material volume fraction'' =
                  P ''Primary: Negative electrode active material volume fraction''
              \<and> P' ''Secondary: Negative electrode active material volume fraction'' =
                  P ''Secondary: Negative electrode active material volume fraction''"
  proof (cases "truthy silicon")
    case True
    from update_silicon_truthy [OF True sil] obtain p where
      "num_of silicon = Some p"
      "P' = (update_thickness P1 thickness)
              (''Primary: Negative electrode active material volume fraction'' \<mapsto>
                       PFloat (1 - p * 0.5),
               ''Secondary: Negative electrode active material volume fraction'' \<mapsto>
                       PFloat (p * 0.5))"
      by blast
    then have "num_of silicon = Some p
               \<and> P' ''Primary: Negative electrode active material volume fraction'' =
                   Some (PFloat (1 - p * 0.5))
               \<and> P' ''Secondary: Negative electrode active material volume fraction'' =
                   Some (PFloat (p * 0.5))"
      by simp
    with True show ?thesis by auto
  next
    case False
    with sil have "P' = update_thickness P1 thickness"
      by (simp add: update_silicon_falsy)
    moreover have "P1 ''Primary: Negative electrode active material volume fraction'' =
        P ''Primary: Negative electrode active material volume fraction''"
      using update_capacity_other [OF cap,
          of "''Primary: Negative electrode active material volume fraction''"]
      by (simp add: update_temperature_apply)
    moreover have "P1 ''Secondary: Negative electrode active material volume fraction'' =
        P ''Secondary: Negative electrode active material volume fraction''"
      using update_capacity_other [OF cap,
          of "''Secondary: Negative electrode active material volume fraction''"]
      by (simp add: update_temperature_apply)
    ultimately show ?thesis using False by (simp add: update_thickness_apply)
  qed
  have noop: "\<not> truthy temperature \<and> \<not> truthy capacity \<and> \<not> truthy thickness
            \<and> \<not> truthy silicon \<longrightarrow> P' = P"
  proof
    assume "\<not> truthy temperature \<and> \<not> truthy capacity \<and> \<not> truthy thickness
            \<and> \<not> truthy silicon"
    with run show "P' = P"
      by (simp add: update_parameters_def update_capacity_falsy update_silicon_falsy
            update_temperature_def update_thickness_def)
  qed
    from temp thick height fractions noop show ?thesis by (intro conjI)
  qed
  qed
next
  show " ((truthy capacity \<longrightarrow>
          (\<exists>x n h. num_of capacity = Some x
              \<and> num_of (params_get P ''Nominal cell capacity [A.h]'') = Some n \<and> n \<noteq> 0
              \<and> num_of (params_get P ''Electrode height [m]'') = Some h
              \<and> \<bar>x\<bar> < float_limit \<and> \<bar>n\<bar> < float_limit \<and> \<bar>h\<bar> < float_limit
              \<and> \<bar>x / n\<bar> < float_limit))
        \<and> (truthy silicon \<longrightarrow> (\<exists>p. num_of silicon = Some p \<and> \<bar>p\<bar> < float_limit))
        \<longrightarrow> (\<exists>P'. update_parameters P temperature capacity thickness silicon = Inr P'))"
  proof (rule impI)
  assume ok: "(truthy capacity \<longrightarrow>
          (\<exists>x n h. num_of capacity = Some x
              \<and> num_of (params_get P ''Nominal cell capacity [A.h]'') = Some n \<and> n \<noteq> 0
              \<and> num_of (params_get P ''Electrode height [m]'') = Some h
              \<and> \<bar>x\<bar> < float_limit \<and> \<bar>n\<bar> < float_limit \<and> \<bar>h\<bar> < float_limit
              \<and> \<bar>x / n\<bar> < float_limit))
        \<and> (truthy silicon \<longrightarrow> (\<exists>p. num_of silicon = Some p \<and> \<bar>p\<bar> < float_limit))"
  let ?P0 = "update_temperature P temperature"
  from ok have "truthy capacity \<longrightarrow>
          (\<exists>x n h. num_of capacity = Some x
              \<and> num_of (params_get ?P0 ''Nominal cell capacity [A.h]'') = Some n \<and> n \<noteq> 0
              \<and> num_of (params_get ?P0 ''Electrode height [m]'') = Some h
              \<and> \<bar>x\<bar> < float_limit \<and> \<bar>n\<bar> < float_limit \<and> \<bar>h\<bar> < float_limit
              \<and> \<bar>x / n\<bar> < float_limit)"
    by (simp add: params_get_update_temperature)
  then obtain P1 where c: "update_capacity ?P0 capacity = Inr P1"
    using update_capacity_returns by blast
  from ok have "truthy silicon \<longrightarrow> (\<exists>p. num_of silicon = Some p \<and> \<bar>p\<bar> < float_limit)"
    by (rule conjunct2)
  then obtain P' where s: "update_silicon (update_thickness P1 thickness) silicon = Inr P'"
    using update_silicon_returns by blast
  have "update_parameters P temperature capacity thickness silicon = Inr P'"
    by (simp only: update_parameters_def c s sum.case)
  then show "\<exists>P'. update_parameters P temperature capacity thickness silicon = Inr P'"
    by simp
  qed
qed

text \<open>
  Merging 0, 0.0, the empty string and \<open>None\<close> leaves the base set; merging the
  temperature 298, the capacity 2, the thickness 0.0001 and the silicon percentage 1
  writes 298, the height 2, the thickness and the fractions 0.5 and 0.5.
\<close>

theorem merge_overrides_witness:
  "update_parameters ex_base (PInt 0) (PFloat 0) (PStr []) PNone = Inr ex_base
   \<and> (\<exists>P'. update_parameters ex_base (PInt 298) (PInt 2) (PFloat 0.0001) (PInt 1) = Inr P'
         \<and> P' ''Ambient temperature [K]'' = Some (PInt 298)
         \<and> P' ''Positive electrode thickness [m]'' = Some (PFloat 0.0001)
         \<and> P' ''Electrode height [m]'' = Some (PFloat 2)
         \<and> P' ''Primary: Negative electrode active material volume fraction'' =
             Some (PFloat 0.5)
         \<and> P' ''Secondary: Negative electrode active material volume fraction'' =
             Some (PFloat 0.5))"
proof -
  note t0 = merge_overrides [of ex_base "PInt 0" "PFloat 0" "PStr []" PNone]
  from t0 have "\<exists>P'. update_parameters ex_base (PInt 0) (PFloat 0) (PStr []) PNone = Inr P'"
    by simp
  then obtain P0 where r0: "update_parameters ex_base (PInt 0) (PFloat 0) (PStr []) PNone = Inr P0" ..
  with t0 have "P0 = ex_base" by simp
  with r0 have w0: "update_parameters ex_base (PInt 0) (PFloat 0) (PStr []) PNone = Inr ex_base"
    by simp
  note t1 = merge_overrides [of ex_base "PInt 298" "PInt 2" "PFloat 0.0001" "PInt 1"]
  have cap: "\<exists>x n h. num_of (PInt 2) = Some x
              \<and> num_of (params_get ex_base ''Nominal cell capacity [A.h]'') = Some n \<and> n \<noteq> 0
              \<and> num_of (params_get ex_base ''Electrode height [m]'') = Some h
              \<and> \<bar>x\<bar> < float_limit \<and> \<bar>n\<bar> < float_limit \<and> \<bar>h\<bar> < float_limit
              \<and> \<bar>x / n\<bar> < float_limit"
    using float_limit_large
    by (intro exI [where x = 2] exI [where x = 1]) (simp add: ex_base_values)
  have sil: "\<exists>p. num_of (PInt 1) = Some p \<and> \<bar>p\<bar> < float_limit"
    using float_limit_large by simp
  from t1 cap sil have
    "\<exists>P'. update_parameters ex_base (PInt 298) (PInt 2) (PFloat 0.0001) (PInt 1) = Inr P'"
    by blast
  then obtain P1 where
    r1: "update_parameters ex_base (PInt 298) (PInt 2) (PFloat 0.0001) (PInt 1) = Inr P1" ..
  with t1 have "P1 ''Ambient temperature [K]'' = Some (PInt 298)
         \<and> P1 ''Positive electrode thickness [m]'' = Some (PFloat 0.0001)
         \<and> P1 ''Electrode height [m]'' = Some (PFloat 2)
         \<and> P1 ''Primary: Negative electrode active material volume fraction'' =
             Some (PFloat 0.5)
         \<and> P1 ''Secondary: Negative electrode active material volume fraction'' =
             Some (PFloat 0.5)"
    by (simp add: ex_base_values)
  with r1 w0 show ?thesis by simp
qed

lemma capacity_override_returns:
  assumes cap: "P ''Nominal cell capacity [A.h]'' = Some bc" "num_of bc = Some baseCapacity"
      and nz: "baseCapacity \<noteq> 0"
      and hgt: "P ''Electrode height [m]'' = Some bh" "num_of bh = Some baseHeight"
      and req: "num_of capacity = Some requestedCapacity" "requestedCapacity \<noteq> 0"
      and range: "\<bar>requestedCapacity\<bar> < float_limit" "\<bar>baseCapacity\<bar> < float_limit"
        "\<bar>baseHeight\<bar> < float_limit" "\<bar>requestedCapacity / baseCapacity\<bar> < float_limit"
      and sil: "truthy silicon \<longrightarrow> (\<exists>p. num_of silicon = Some p \<and> \<bar>p\<bar> < float_limit)"
  shows "\<exists>P'. update_parameters P temperature capacity thickness silicon = Inr P'
           \<and> P' ''Electrode height [m]'' =
               Some (PFloat (baseHeight * (requestedCapacity / baseCapacity)))"
proof -
  let ?P0 = "update_temperature P temperature"
  let ?P1 = "?P0(''Electrode height [m]'' \<mapsto>
               PFloat (baseHeight * (requestedCapacity / baseCapacity)))"
  have n: "num_of (params_get ?P0 ''Nominal cell capacity [A.h]'') = Some baseCapacity"
    and h: "num_of (params_get ?P0 ''Electrode height [m]'') = Some baseHeight"
    using cap hgt by (simp_all add: params_get_def update_temperature_apply)
  have c: "update_capacity ?P0 capacity = Inr ?P1"
    using req(1) req(2) n nz h range(1) range(2) range(3) range(4)
    by (rule update_capacity_numeric)
  from update_silicon_returns [OF sil] obtain P' where
    s: "update_silicon (update_thickness ?P1 thickness) silicon = Inr P'"
    by blast
  have "P' ''Electrode height [m]'' = update_thickness ?P1 thickness ''Electrode height [m]''"
    using s by (rule update_silicon_other) simp_all
  then have "P' ''Electrode height [m]'' =
      Some (PFloat (baseHeight * (requestedCapacity / baseCapacity)))"
    by (simp add: update_thickness_apply)
  moreover have "update_parameters P temperature capacity thickness silicon = Inr P'"
    by (simp only: update_parameters_def c s sum.case)
  ultimately show ?thesis by simp
qed

lemma capacity_override_height:
  assumes cap: "P ''Nominal cell capacity [A.h]'' = Some bc" "num_of bc = Some baseCapacity"
      and hgt: "P ''Electrode height [m]'' = Some bh" "num_of bh = Some baseHeight"
      and req: "num_of capacity = Some requestedCapacity" "requestedCapacity \<noteq> 0"
      and run: "update_parameters P temperature capacity thickness silicon = Inr P'"
  shows "P' ''Electrode height [m]'' =
           Some (PFloat (baseHeight * (requestedCapacity / baseCapacity)))"
proof -
  let ?P0 = "update_temperature P temperature"
  from run obtain P1 where
    c: "update_capacity ?P0 capacity = Inr P1" and
    s: "update_silicon (update_thickness P1 thickness) silicon = Inr P'"
    by (rule update_parameters_stages)
  from truthy_num [OF req(1)] req(2) have t: "truthy capacity" by simp
  from update_capacity_truthy [OF t c] obtain x n h where
    v: "num_of capacity = Some x"
       "num_of (params_get ?P0 ''Nominal cell capacity [A.h]'') = Some n"
       "num_of (params_get ?P0 ''Electrode height [m]'') = Some h"
       "P1 = ?P0(''Electrode height [m]'' \<mapsto> PFloat (h * (x / n)))"
    by blast
  from v(1) req(1) have x: "x = requestedCapacity" by simp
  from v(2) cap have n: "n = baseCapacity"
    by (simp add: params_get_def update_temperature_apply)
  from v(3) hgt have h: "h = baseHeight"
    by (simp add: params_get_def update_temperature_apply)
  have "P' ''Electrode height [m]'' = update_thickness P1 thickness ''Electrode height [m]''"
    using s by (rule update_silicon_other) simp_all
  with v(4) x n h show ?thesis by (simp add: update_thickness_apply)
qed

text \<open>
  C7. For a base set with a numeric nominal capacity and a numeric electrode height and a
  non-zero capacity override, every merge that returns has set the electrode height to
  \<open>baseHeight * (requestedCapacity / baseCapacity)\<close>; and the merge returns, with that
  height, when the base capacity is not 0 and the numbers and the quotient are in the
  range of a float (a silicon percentage, when given, being such a number too).
\<close>

theorem capacity_sets_height:
  assumes cap: "P ''Nominal cell capacity [A.h]'' = Some bc" "num_of bc = Some baseCapacity"
      and hgt: "P ''Electrode height [m]'' = Some bh" "num_of bh = Some baseHeight"
      and req: "num_of capacity = Some requestedCapacity" "requestedCapacity \<noteq> 0"
  shows "(\<forall>P'. update_parameters P temperature capacity thickness silicon = Inr P' \<longrightarrow>
            P' ''Electrode height [m]'' =
              Some (PFloat (baseHeight * (requestedCapacity / baseCapacity))))
       \<and> (baseCapacity \<noteq> 0
            \<and> \<bar>requestedCapacity\<bar> < float_limit \<and> \<bar>baseCapacity\<bar> < float_limit
            \<and> \<bar>baseHeight\<bar> < float_limit
            \<and> \<bar>requestedCapacity / baseCapacity\<bar> < float_limit
            \<and> (truthy silicon \<longrightarrow> (\<exists>p. num_of silicon = Some p \<and> \<bar>p\<bar> < float_limit))
            \<longrightarrow>
            (\<exists>P'. update_parameters P temperature capacity thickness silicon = Inr P'
               \<and> P' ''Electrode height [m]'' =
                   Some (PFloat (baseHeight * (requestedCapacity / baseCapacity)))))"
proof (rule conjI)
  show "\<forall>P'. update_parameters P temperature capacity thickness silicon = Inr P' \<longrightarrow>
            P' ''Electrode height [m]'' =
              Some (PFloat (baseHeight * (requestedCapacity / baseCapacity)))"
    using capacity_override_height [OF cap hgt req] by simp
  show "baseCapacity \<noteq> 0
            \<and> \<bar>requestedCapacity\<bar> < float_limit \<and> \<bar>baseCapacity\<bar> < float_limit
            \<and> \<bar>baseHeight\<bar> < float_limit
            \<and> \<bar>requestedCapacity / baseCapacity\<bar> < float_limit
            \<and> (truthy silicon \<longrightarrow> (\<exists>p. num_of silicon = Some p \<and> \<bar>p\<bar> < float_limit))
            \<longrightarrow>
            (\<exists>P'. update_parameters P temperature capacity thickness silicon = Inr P'
               \<and> P' ''Electrode height [m]'' =
                   Some (PFloat (baseHeight * (requestedCapacity / baseCapacity))))"
  proof (rule impI, elim conjE)
    assume "baseCapacity \<noteq> 0" "\<bar>requestedCapacity\<bar> < float_limit"
      "\<bar>baseCapacity\<bar> < float_limit" "\<bar>baseHeight\<bar> < float_limit"
      "\<bar>requestedCapacity / baseCapacity\<bar> < float_limit"
      "truthy silicon \<longrightarrow> (\<exists>p. num_of silicon = Some p \<and> \<bar>p\<bar> < float_limit)"
    with cap hgt req
    show "\<exists>P'. update_parameters P temperature capacity thickness silicon = Inr P'
               \<and> P' ''Electrode height [m]'' =
                   Some (PFloat (baseHeight * (requestedCapacity / baseCapacity)))"
      by (intro capacity_override_returns)
  qed
qed

text \<open>Base capacity 1 and height 1, requested capacity 2: the height is 2.\<close>

theorem capacity_sets_height_witness:
  "\<exists>P'. update_parameters ex_base PNone (PFloat 2) PNone PNone = Inr P'
         \<and> P' ''Electrode height [m]'' = Some (PFloat 2)"
proof -
  have n: "num_of (PFloat 1) = Some 1" "num_of (PFloat 2) = Some 2" "(2::real) \<noteq> 0"
    by simp_all
  have r: "(1::real) \<noteq> 0
            \<and> \<bar>2::real\<bar> < float_limit \<and> \<bar>1::real\<bar> < float_limit
            \<and> \<bar>1::real\<bar> < float_limit
            \<and> \<bar>(2::real) / 1\<bar> < float_limit
            \<and> (truthy PNone \<longrightarrow> (\<exists>p. num_of PNone = Some p \<and> \<bar>p\<bar> < float_limit))"
    using float_limit_large by simp
  note t = capacity_sets_height [OF ex_base_values(3) n(1) ex_base_values(4) n(1) n(2) n(3),
      of PNone PNone PNone]
  from t have "(1::real) \<noteq> 0
            \<and> \<bar>2::real\<bar> < float_limit \<and> \<bar>1::real\<bar> < float_limit
            \<and> \<bar>1::real\<bar> < float_limit
            \<and> \<bar>(2::real) / 1\<bar> < float_limit
            \<and> (truthy PNone \<longrightarrow> (\<exists>p. num_of PNone = Some p \<and> \<bar>p\<bar> < float_limit))
            \<longrightarrow>
            (\<exists>P'. update_parameters ex_base PNone (PFloat 2) PNone PNone = Inr P'
               \<and> P' ''Electrode height [m]'' = Some (PFloat (1 * (2 / 1))))"
    by (rule conjunct2)
  then have "\<exists>P'. update_parameters ex_base PNone (PFloat 2) PNone PNone = Inr P'
               \<and> P' ''Electrode height [m]'' = Some (PFloat (1 * (2 / 1)))"
    using r by (rule mp)
  then show ?thesis by simp
qed

text \<open>
  C6 as stated fails at \<open>p = 0\<close>: the value is falsy, the merge writes nothing, and the two
  fractions stay those of the base set (here 0.735 and 0.015, not 1 and 0).
\<close>

theorem silicon_zero_counterexample:
  "(0::real) \<in> {0..1}
   \<and> num_of (PInt 0) = Some 0
   \<and> update_parameters ex_base PNone PNone PNone (PInt 0) = Inr ex_base
   \<and> ex_base ''Primary: Negative electrode active material volume fraction'' =
       Some (PFloat 0.735)
   \<and> ex_base ''Secondary: Negative electrode active material volume fraction'' =
       Some (PFloat 0.015)
   \<and> PFloat 0.735 \<noteq> PFloat (1 - 0 / 2)
   \<and> PFloat 0.015 \<noteq> PFloat (0 / 2)
   \<and> (0.735::real) + 0.015 \<noteq> 1"
  by (simp add: update_parameters_def update_capacity_falsy update_silicon_falsy
        update_temperature_def update_thickness_def ex_base_values)

text \<open>
  C6, as the code has it. For a silicon percentage \<open>p\<close> in [0, 1]: when \<open>p\<close> is not 0, a
  merge that returns has set the two fractions to \<open>1 - p / 2\<close> and \<open>p / 2\<close>, which sum
  to 1; when \<open>p\<close> is 0 it has left both fractions as the base set has them. The merge
  returns whenever there is no capacity override.
\<close>

theorem silicon_split:
  assumes p: "num_of silicon = Some p" and lo: "0 \<le> p" and hi: "p \<le> 1"
  shows "(\<not> truthy capacity \<longrightarrow>
            (\<exists>P'. update_parameters P temperature capacity thickness silicon = Inr P'))
       \<and> (\<forall>P'. update_parameters P temperature capacity thickness silicon = Inr P' \<longrightarrow>
            (if p = 0 then
               P' ''Primary: Negative electrode active material volume fraction'' =
                 P ''Primary: Negative electrode active material volume fraction''
             \<and> P' ''Secondary: Negative electrode active material volume fraction'' =
                 P ''Secondary: Negative electrode active material volume fraction''
             else
               P' ''Primary: Negative electrode active material volume fraction'' =
                 Some (PFloat (1 - p / 2))
             \<and> P' ''Secondary: Negative electrode active material volume fraction'' =
                 Some (PFloat (p / 2))
             \<and> (1 - p / 2) + p / 2 = 1))"
proof (rule conjI)
  from lo hi have "\<bar>p\<bar> \<le> 2 ^ 10" by simp
  then have range: "\<bar>p\<bar> < float_limit" by (rule small_in_range)
  from p range have ok: "truthy silicon \<longrightarrow> (\<exists>p. num_of silicon = Some p \<and> \<bar>p\<bar> < float_limit)"
    by simp
  show "\<not> truthy capacity \<longrightarrow>
          (\<exists>P'. update_parameters P temperature capacity thickness silicon = Inr P')"
  proof
    assume "\<not> truthy capacity"
    then have c: "update_capacity (update_temperature P temperature) capacity =
        Inr (update_temperature P temperature)"
      by (rule update_capacity_falsy)
    from update_silicon_returns [OF ok] obtain P' where
      s: "update_silicon (update_thickness (update_temperature P temperature) thickness) silicon
            = Inr P'"
      by blast
    have "update_parameters P temperature capacity thickness silicon = Inr P'"
      by (simp only: update_parameters_def c s sum.case)
    then show "\<exists>P'. update_parameters P temperature capacity thickness silicon = Inr P'"
      by simp
  qed
  show "\<forall>P'. update_parameters P temperature capacity thickness silicon = Inr P' \<longrightarrow>
            (if p = 0 then
               P' ''Primary: Negative electrode active material volume fraction'' =
                 P ''Primary: Negative electrode active material volume fraction''
             \<and> P' ''Secondary: Negative electrode active material volume fraction'' =
                 P ''Secondary: Negative electrode active material volume fraction''
             else
               P' ''Primary: Negative electrode active material volume fraction'' =
                 Some (PFloat (1 - p / 2))
             \<and> P' ''Secondary: Negative electrode active material volume fraction'' =
                 Some (PFloat (p / 2))
             \<and> (1 - p / 2) + p / 2 = 1)"
  proof (intro allI impI)
    fix P'
    assume "update_parameters P temperature capacity thickness silicon = Inr P'"
    then obtain P1 where
      c: "update_capacity (update_temperature P temperature) capacity = Inr P1" and
      s: "update_silicon (update_thickness P1 thickness) silicon = Inr P'"
      by (rule update_parameters_stages)
    show "if p = 0 then
               P' ''Primary: Negative electrode active material volume fraction'' =
                 P ''Primary: Negative electrode active material volume fraction''
             \<and> P' ''Secondary: Negative electrode active material volume fraction'' =
                 P ''Secondary: Negative electrode active material volume fraction''
             else
               P' ''Primary: Negative electrode active material volume fraction'' =
                 Some (PFloat (1 - p / 2))
             \<and> P' ''Secondary: Negative electrode active material volume fraction'' =
                 Some (PFloat (p / 2))
             \<and> (1 - p / 2) + p / 2 = 1"
    proof (cases "p = 0")
      case True
      with truthy_num [OF p] have "\<not> truthy silicon" by simp
      with s have "P' = update_thickness P1 thickness" by (simp add: update_silicon_falsy)
      moreover have "P1 ''Primary: Negative electrode active material volume fraction'' =
          P ''Primary: Negative electrode active material volume fraction''"
        using update_capacity_other [OF c,
            of "''Primary: Negative electrode active material volume fraction''"]
        by (simp add: update_temperature_apply)
      moreover have "P1 ''Secondary: Negative electrode active material volume fraction'' =
          P ''Secondary: Negative electrode active material volume fraction''"
        using update_capacity_other [OF c,
            of "''Secondary: Negative electrode active material volume fraction''"]
        by (simp add: update_temperature_apply)
      ultimately show ?thesis using True by (simp add: update_thickness_apply)
    next
      case False
      from update_silicon_numeric [OF p False range, of "update_thickness P1 thickness"] s
      have "P' = (update_thickness P1 thickness)
                (''Primary: Negative electrode active material volume fraction'' \<mapsto>
                         PFloat (1 - p * 0.5),
                 ''Secondary: Negative electrode active material volume fraction'' \<mapsto>
                         PFloat (p * 0.5))"
        by simp
      then have "P' ''Primary: Negative electrode active material volume fraction'' =
                   Some (PFloat (1 - p / 2))
               \<and> P' ''Secondary: Negative electrode active material volume fraction'' =
                   Some (PFloat (p / 2))"
        by simp
      with False show ?thesis by simp
    qed
  qed
qed

text \<open>The percentages 0.2 and 1 give (0.9, 0.1) and (0.5, 0.5); 0 leaves the base fractions.\<close>

theorem silicon_split_witness:
  "(\<exists>P'. update_parameters ex_base PNone PNone PNone (PFloat 0.2) = Inr P'
       \<and> P' ''Primary: Negative electrode active material volume fraction'' =
           Some (PFloat 0.9)
       \<and> P' ''Secondary: Negative electrode active material volume fraction'' =
           Some (PFloat 0.1))
   \<and> (\<exists>P'. update_parameters ex_base PNone PNone PNone (PInt 1) = Inr P'
       \<and> P' ''Primary: Negative electrode active material volume fraction'' =
           Some (PFloat 0.5)
       \<and> P' ''Secondary: Negative electrode active material volume fraction'' =
           Some (PFloat 0.5))
   \<and> (\<exists>P'. update_parameters ex_base PNone PNone PNone (PFloat 0) = Inr P'
       \<and> P' ''Primary: Negative electrode active material volume fraction'' =
           Some (PFloat 0.735)
       \<and> P' ''Secondary: Negative electrode active material volume fraction'' =
           Some (PFloat 0.015))"
proof -
  have n: "\<not> truthy PNone" by simp
  have a: "num_of (PFloat 0.2) = Some 0.2" "(0::real) \<le> 0.2" "(0.2::real) \<le> 1" by simp_all
  note ta = silicon_split [OF a, of PNone ex_base PNone PNone]
  from ta n obtain Pa where ra: "update_parameters ex_base PNone PNone PNone (PFloat 0.2) = Inr Pa"
    by blast
  with ta have "Pa ''Primary: Negative electrode active material volume fraction'' =
           Some (PFloat 0.9)
       \<and> Pa ''Secondary: Negative electrode active material volume fraction'' =
           Some (PFloat 0.1)"
    by simp
  with ra have wa: "\<exists>P'. update_parameters ex_base PNone PNone PNone (PFloat 0.2) = Inr P'
       \<and> P' ''Primary: Negative electrode active material volume fraction'' =
           Some (PFloat 0.9)
       \<and> P' ''Secondary: Negative electrode active material volume fraction'' =
           Some (PFloat 0.1)"
    by simp
  have b: "num_of (PInt 1) = Some 1" "(0::real) \<le> 1" "(1::real) \<le> 1" by simp_all
  note tb = silicon_split [OF b, of PNone ex_base PNone PNone]
  from tb n obtain Pb where rb: "update_parameters ex_base PNone PNone PNone (PInt 1) = Inr Pb"
    by blast
  with tb have "Pb ''Primary: Negative electrode active material volume fraction'' =
           Some (PFloat 0.5)
       \<and> Pb ''Secondary: Negative electrode active material volume fraction'' =
           Some (PFloat 0.5)"
    by simp
  with rb have wb: "\<exists>P'. update_parameters ex_base PNone PNone PNone (PInt 1) = Inr P'
       \<and> P' ''Primary: Negative electrode active material volume fraction'' =
           Some (PFloat 0.5)
       \<and> P' ''Secondary: Negative electrode active material volume fraction'' =
           Some (PFloat 0.5)"
    by simp
  have z: "num_of (PFloat 0) = Some 0" "(0::real) \<le> 0" "(0::real) \<le> 1" by simp_all
  note tz = silicon_split [OF z, of PNone ex_base PNone PNone]
  from tz n obtain Pz where rz: "update_parameters ex_base PNone PNone PNone (PFloat 0) = Inr Pz"
    by blast
  with tz have "Pz ''Primary: Negative electrode active material volume fraction'' =
           Some (PFloat 0.735)
       \<and> Pz ''Secondary: Negative electrode active material volume fraction'' =
           Some (PFloat 0.015)"
    by (simp add: ex_base_values)
  with rz have wz: "\<exists>P'. update_parameters ex_base PNone PNone PNone (PFloat 0) = Inr P'
       \<and> P' ''Primary: Negative electrode active material volume fraction'' =
           Some (PFloat 0.735)
       \<and> P' ''Secondary: Negative electrode active material volume fraction'' =
           Some (PFloat 0.015)"
    by simp
  from wa wb wz show ?thesis by (intro conjI)
qed

section \<open>The request boundary\<close>








end
